theory Spec2Isabelle
  imports Complex_Main
begin

section \<open>Text: Python strings for the display\<close>

text \<open>
  A Python \<open>str\<close> is a sequence of Unicode code points. The strings handed to the
  display hold characters beyond one byte (the ellipsis U+2026), so a display string is a
  list of code points. Text that comes from the operating system (environment variables,
  files below /proc and /sys, command output) is a HOL \<open>string\<close>, whose
  characters are the code points 0..255.
\<close>

type_synonym ustring = "nat list"

definition ustr :: "string \<Rightarrow> ustring" where
  "ustr s = map of_char s"

definition ellipsis :: nat where
  "ellipsis = 8230"

section \<open>fit: trimming a line to a pixel width\<close>

text \<open>
  \<open>draw.textlength(_, font=font)\<close> is the parameter \<open>textlength\<close>. The loop
  \<^verbatim>\<open>while alt and draw.textlength(alt + "\<dots>", font=font) > max_w: alt = alt[:-1]\<close>
  is the function \<open>fit_loop\<close>, which returns the final value of \<open>alt\<close>.
\<close>

function fit_loop :: "(ustring \<Rightarrow> real) \<Rightarrow> ustring \<Rightarrow> real \<Rightarrow> ustring" where
  "fit_loop textlength alt max_w =
     (if alt \<noteq> [] \<and> textlength (alt @ [ellipsis]) > max_w
      then fit_loop textlength (butlast alt) max_w
      else alt)"
  by pat_completeness auto
termination
  by (relation "measure (\<lambda>(textlength, alt, max_w). length alt)") auto

definition fit :: "(ustring \<Rightarrow> real) \<Rightarrow> ustring \<Rightarrow> real \<Rightarrow> ustring" where
  "fit textlength text max_w =
     (if textlength text \<le> max_w then text
      else (let alt = fit_loop textlength text max_w
            in if alt \<noteq> [] then alt @ [ellipsis] else take 1 text))"

section \<open>Python string operations on operating-system text\<close>

text \<open>
  \<open>is_space\<close> is the whitespace of \<open>str.split()\<close> and \<open>str.strip()\<close> among the
  code points 0..255: tab to carriage return, the separators 0x1C..0x1F, the space, 0x85
  and 0xA0.
\<close>

definition is_space :: "char \<Rightarrow> bool" where
  "is_space c =
     (let n = (of_char c :: nat)
      in (9 \<le> n \<and> n \<le> 13) \<or> (28 \<le> n \<and> n \<le> 32) \<or> n = 133 \<or> n = 160)"

definition strip :: "string \<Rightarrow> string" where
  "strip s = rev (dropWhile is_space (rev (dropWhile is_space s)))"

text \<open>\<open>s.split()\<close>: the maximal runs of characters that are not whitespace.\<close>

fun split_go :: "string \<Rightarrow> string \<Rightarrow> string list" where
  "split_go cur [] = (if cur = [] then [] else [cur])"
| "split_go cur (c # cs) =
     (if is_space c then (if cur = [] then split_go [] cs else cur # split_go [] cs)
      else split_go (cur @ [c]) cs)"

definition split_ws :: "string \<Rightarrow> string list" where
  "split_ws s = split_go [] s"

text \<open>\<open>s.split(sep)\<close> for a separator of one character: empty pieces are kept.\<close>

fun split_on_go :: "char \<Rightarrow> string \<Rightarrow> string \<Rightarrow> string list" where
  "split_on_go sep cur [] = [cur]"
| "split_on_go sep cur (c # cs) =
     (if c = sep then cur # split_on_go sep [] cs else split_on_go sep (cur @ [c]) cs)"

definition split_on :: "char \<Rightarrow> string \<Rightarrow> string list" where
  "split_on sep s = split_on_go sep [] s"

text \<open>
  \<open>s.splitlines()\<close>: the line boundaries among the code points 0..255 are line feed,
  carriage return (with a following line feed as one boundary), 0x0B, 0x0C, 0x1C, 0x1D,
  0x1E and 0x85; a boundary at the very end opens no further line.
\<close>

definition is_linebreak :: "char \<Rightarrow> bool" where
  "is_linebreak c =
     (let n = (of_char c :: nat)
      in (10 \<le> n \<and> n \<le> 13) \<or> (28 \<le> n \<and> n \<le> 30) \<or> n = 133)"

fun splitlines_go :: "string \<Rightarrow> string \<Rightarrow> string list" where
  "splitlines_go cur [] = (if cur = [] then [] else [cur])"
| "splitlines_go cur [c] = (if is_linebreak c then [cur] else [cur @ [c]])"
| "splitlines_go cur (c # d # cs) =
     (if c = CHR 0x0D \<and> d = CHR 0x0A then cur # splitlines_go [] cs
      else if is_linebreak c then cur # splitlines_go [] (d # cs)
      else splitlines_go (cur @ [c]) (d # cs))"

definition splitlines :: "string \<Rightarrow> string list" where
  "splitlines s = splitlines_go [] s"

text \<open>\<open>s.replace(old, new)\<close> for a non-empty \<open>old\<close>, scanning from the left.\<close>

function replace :: "string \<Rightarrow> string \<Rightarrow> string \<Rightarrow> string" where
  "replace old new [] = []"
| "replace old new (c # cs) =
     (if old \<noteq> [] \<and> take (length old) (c # cs) = old
      then new @ replace old new (drop (length old) (c # cs))
      else c # replace old new cs)"
  by pat_completeness auto
termination
  by (relation "measure (\<lambda>(old, new, s). length s)") auto

text \<open>
  \<open>int(s)\<close> on text of the code points 0..255: surrounding whitespace, an optional
  sign, then decimal digits, where single underscores may stand between digits. Anything
  else raises ValueError (here \<open>None\<close>). The limit on the number of digits that recent
  interpreters place on this conversion is not modelled.
\<close>

definition is_digit :: "char \<Rightarrow> bool" where
  "is_digit c = (let n = (of_char c :: nat) in 48 \<le> n \<and> n \<le> 57)"

fun digits_ok :: "string \<Rightarrow> bool" where
  "digits_ok [] = False"
| "digits_ok [c] = is_digit c"
| "digits_ok (c # d # cs) =
     (is_digit c \<and> (if d = CHR ''_'' then digits_ok cs else digits_ok (d # cs)))"

definition digits_value :: "string \<Rightarrow> nat" where
  "digits_value s =
     foldl (\<lambda>acc c. acc * 10 + (of_char c - 48)) 0 (filter (\<lambda>c. c \<noteq> CHR ''_'') s)"

definition py_int :: "string \<Rightarrow> int option" where
  "py_int s =
     (case strip s of
        [] \<Rightarrow> None
      | c # cs \<Rightarrow>
          if c = CHR ''-'' then (if digits_ok cs then Some (- int (digits_value cs)) else None)
          else if c = CHR ''+'' then (if digits_ok cs then Some (int (digits_value cs)) else None)
          else (if digits_ok (c # cs) then Some (int (digits_value (c # cs))) else None))"

section \<open>Numbers and their formatting\<close>

text \<open>
  The metric values are Python floats. They are modelled by the real numbers they stand
  for: the rounding error of binary floating point, infinities and NaN are outside this
  model. \<open>py_round\<close> is \<open>round(x)\<close>, which rounds to the nearest integer and a tie
  to the even one; \<open>round1\<close> is \<open>round(x, 1)\<close>; \<open>fmt1\<close> is the format
  \<open>{x:.1f}\<close>; \<open>str_int\<close> is the decimal text of an integer, as \<open>{n}\<close> prints it.
\<close>

definition py_round :: "real \<Rightarrow> int" where
  "py_round x =
     (let f = \<lfloor>x\<rfloor>; d = x - of_int f
      in if d < 1 / 2 then f
         else if 1 / 2 < d then f + 1
         else if even f then f else f + 1)"

definition round1 :: "real \<Rightarrow> real" where
  "round1 x = of_int (py_round (x * 10)) / 10"

definition digit_char :: "nat \<Rightarrow> char" where
  "digit_char d = ''0123456789'' ! d"

function str_nat :: "nat \<Rightarrow> string" where
  "str_nat n =
     (if n < 10 then [digit_char n]
      else str_nat (n div 10) @ [digit_char (n mod 10)])"
  by pat_completeness auto
termination
  by (relation "measure (\<lambda>n. n)") auto

definition str_int :: "int \<Rightarrow> string" where
  "str_int i = (if i < 0 then CHR ''-'' # str_nat (nat (- i)) else str_nat (nat i))"

definition fmt1 :: "real \<Rightarrow> string" where
  "fmt1 x =
     (let t = nat \<bar>py_round (x * 10)\<bar>
      in (if x < 0 then ''-'' else []) @ str_nat (t div 10) @ ''.'' @ str_nat (t mod 10))"

section \<open>Metric sources\<close>

text \<open>
  An exception raised by the source is a value of \<open>exn\<close>; a function that can raise
  returns \<open>exn + 'a\<close>. A text file is the list of its lines as \<open>for line in f\<close> yields
  them, or \<open>None\<close> when \<open>open\<close> raises.
\<close>

datatype exn = OSError | ValueError | IndexError

text \<open>
  \<open>read_stat\<close>, the inner function of \<open>cpu_usage_percent\<close>: the first line that starts
  with \<open>cpu\<close> and a space gives the counters; without such a line the result is (0, 0).
\<close>

fun read_stat_lines :: "string list \<Rightarrow> exn + (int \<times> int)" where
  "read_stat_lines [] = Inr (0, 0)"
| "read_stat_lines (line # rest) =
     (if take 4 line = ''cpu '' then
        (case those (map py_int (tl (split_ws line))) of
           None \<Rightarrow> Inl ValueError
         | Some parts \<Rightarrow>
             if length parts < 5 then Inl IndexError
             else Inr (parts ! 3 + parts ! 4, sum_list parts))
      else read_stat_lines rest)"

definition read_stat :: "string list option \<Rightarrow> exn + (int \<times> int)" where
  "read_stat f = (case f of None \<Rightarrow> Inl OSError | Some lines \<Rightarrow> read_stat_lines lines)"

text \<open>
  \<open>cpu_usage_percent\<close> reads /proc/stat twice, 0.25 s apart: the two arguments are the
  file at the first and at the second read.
\<close>

definition cpu_usage_percent :: "string list option \<Rightarrow> string list option \<Rightarrow> exn + real" where
  "cpu_usage_percent stat1 stat2 =
     (case read_stat stat1 of
        Inl e \<Rightarrow> Inl e
      | Inr (idle1, total1) \<Rightarrow>
          (case read_stat stat2 of
             Inl e \<Rightarrow> Inl e
           | Inr (idle2, total2) \<Rightarrow>
               (let d_idle = idle2 - idle1; d_total = total2 - total1
                in Inr (if d_total > 0
                        then round1 (100 * (1 - real_of_int d_idle / real_of_int d_total))
                        else 0))))"

text \<open>
  \<open>read_temp_c\<close>. The file system is a function from a path to the text of the file
  (\<open>None\<close> when it cannot be opened or read), \<open>globbed\<close> is the result of the glob, and
  \<open>vcgencmd\<close> the output of the utility (\<open>None\<close> when \<open>check_output\<close> raises). The
  builtin \<open>float\<close> is the parameter \<open>float_of\<close>, \<open>None\<close> when it raises.
\<close>

fun temp_probe :: "(string \<Rightarrow> real option) \<Rightarrow> (string \<Rightarrow> string option) \<Rightarrow> string list \<Rightarrow> real option" where
  "temp_probe float_of fs [] = None"
| "temp_probe float_of fs (p # ps) =
     (case fs p of
        None \<Rightarrow> temp_probe float_of fs ps
      | Some txt \<Rightarrow>
          (case float_of (strip txt) of
             None \<Rightarrow> temp_probe float_of fs ps
           | Some v \<Rightarrow> Some (round1 (if v > 1000 then v / 1000 else v))))"

definition read_temp_c ::
  "(string \<Rightarrow> real option) \<Rightarrow> (string \<Rightarrow> string option) \<Rightarrow> string list \<Rightarrow> string option \<Rightarrow> real option" where
  "read_temp_c float_of fs globbed vcgencmd =
     (let paths = [''/sys/class/thermal/thermal_zone0/temp'',
                   ''/sys/class/hwmon/hwmon0/temp1_input'',
                   ''/sys/class/hwmon/hwmon1/temp1_input''] @ globbed
      in case temp_probe float_of fs paths of
           Some v \<Rightarrow> Some v
         | None \<Rightarrow>
             (case vcgencmd of
                None \<Rightarrow> None
              | Some out \<Rightarrow>
                  (case float_of (replace [CHR 0x27, CHR ''C''] [] (replace ''temp='' [] (strip out))) of
                     None \<Rightarrow> None
                   | Some v \<Rightarrow> Some (round1 v))))"

text \<open>\<open>mem_usage_percent\<close>: the loop over the lines of /proc/meminfo fills the dict.\<close>

fun meminfo_loop :: "(string \<rightharpoonup> int) \<Rightarrow> string list \<Rightarrow> exn + (string \<rightharpoonup> int)" where
  "meminfo_loop mem [] = Inr mem"
| "meminfo_loop mem (line # rest) =
     (case split_on CHR '':'' line of
        [k, v] \<Rightarrow>
          (case split_ws (strip v) of
             [] \<Rightarrow> Inl IndexError
           | tok # _ \<Rightarrow>
               (case py_int tok of
                  None \<Rightarrow> Inl ValueError
                | Some n \<Rightarrow> meminfo_loop (mem(strip k \<mapsto> n)) rest))
      | _ \<Rightarrow> Inl ValueError)"

definition dict_get :: "(string \<rightharpoonup> int) \<Rightarrow> string \<Rightarrow> int \<Rightarrow> int" where
  "dict_get mem k d = (case mem k of None \<Rightarrow> d | Some n \<Rightarrow> n)"

definition mem_usage_percent :: "string list option \<Rightarrow> exn + real" where
  "mem_usage_percent f =
     (case f of
        None \<Rightarrow> Inl OSError
      | Some lines \<Rightarrow>
          (case meminfo_loop Map.empty lines of
             Inl e \<Rightarrow> Inl e
           | Inr mem \<Rightarrow>
               (let total = dict_get mem ''MemTotal'' 0;
                    avail = dict_get mem ''MemAvailable'' 0
                in Inr (if total \<noteq> 0
                        then round1 (100 * real_of_int (total - avail) / real_of_int total)
                        else 0))))"

text \<open>
  \<open>disk_usage_percent\<close>: \<open>shutil.disk_usage\<close> is a function from the path to the
  triple it returns, \<open>None\<close> when it raises.
\<close>

record usage =
  du_total :: int
  du_used :: int
  du_free :: int

definition disk_usage_percent :: "(string \<Rightarrow> usage option) \<Rightarrow> string \<Rightarrow> real" where
  "disk_usage_percent disk_usage path =
     (case disk_usage path of
        None \<Rightarrow> 0
      | Some du \<Rightarrow>
          if du_total du \<noteq> 0
          then round1 ((real_of_int (du_used du) / real_of_int (du_total du)) * 100)
          else 0)"

section \<open>get_ip\<close>

text \<open>
  The configuration read from the environment at start, and what the operating system
  answers during one pass of the main loop. A command run through \<open>check_output\<close> gives
  its output, or \<open>None\<close> when \<open>check_output\<close> raises; \<open>sock_name\<close> is the address
  that \<open>getsockname\<close> gives after the connect, \<open>None\<close> when the socket calls raise.
\<close>

record config =
  UPDATE_SECS :: real
  MOUNT :: string
  IFACE :: "string option"
  HOST_IP :: "string option"

record os =
  proc_stat_first :: "string list option"
  proc_stat_second :: "string list option"
  proc_meminfo :: "string list option"
  read_file :: "string \<Rightarrow> string option"
  glob_hwmon :: "string list"
  vcgencmd_out :: "string option"
  disk_usage :: "string \<Rightarrow> usage option"
  ip_addr_show :: "string \<Rightarrow> string option"
  ip_route_get :: "string option"
  sock_name :: "string option"
  display_ok :: bool

text \<open>
  What \<open>get_ip\<close> asks of the system, in order, is returned with the address, so that
  the tiers that were tried can be read off.
\<close>

datatype probe = IpAddrShow | IpRouteGet | SocketConnect

text \<open>A string is true in a condition when it is neither \<open>None\<close> nor empty.\<close>

definition truthy :: "string option \<Rightarrow> bool" where
  "truthy v = (case v of None \<Rightarrow> False | Some s \<Rightarrow> s \<noteq> [])"

fun scan_tokens :: "string list \<Rightarrow> string option" where
  "scan_tokens [] = None"
| "scan_tokens (p # ps) =
     (if CHR ''/'' \<in> set p \<and> length (filter (\<lambda>c. c = CHR ''.'') p) = 3
      then (case split_on CHR ''/'' p of [] \<Rightarrow> None | a # _ \<Rightarrow> Some a)
      else scan_tokens ps)"

fun scan_lines :: "string list \<Rightarrow> string option" where
  "scan_lines [] = None"
| "scan_lines (line # rest) =
     (case scan_tokens (split_ws line) of
        Some a \<Rightarrow> Some a
      | None \<Rightarrow> scan_lines rest)"

fun scan_src :: "string list \<Rightarrow> string option" where
  "scan_src [] = None"
| "scan_src [t] = None"
| "scan_src (t # u # ts) = (if t = ''src'' then Some u else scan_src (u # ts))"

text \<open>The test that \<open>scan_tokens\<close> applies to a token, for the statements below.\<close>

abbreviation addr_token :: "string \<Rightarrow> bool" where
  "addr_token p \<equiv> CHR ''/'' \<in> set p \<and> length (filter (\<lambda>c. c = CHR ''.'') p) = 3"

definition route_tier :: "os \<Rightarrow> probe list \<Rightarrow> probe list \<times> string" where
  "route_tier e asked =
     (case ip_route_get e of
        None \<Rightarrow> (asked @ [IpRouteGet], ''0.0.0.0'')
      | Some out \<Rightarrow>
          (case scan_src (split_ws out) of
             Some a \<Rightarrow> (asked @ [IpRouteGet], a)
           | None \<Rightarrow>
               (case sock_name e of
                  None \<Rightarrow> (asked @ [IpRouteGet, SocketConnect], ''0.0.0.0'')
                | Some a \<Rightarrow> (asked @ [IpRouteGet, SocketConnect], a))))"

definition get_ip :: "config \<Rightarrow> os \<Rightarrow> probe list \<times> string" where
  "get_ip cfg e =
     (if truthy (HOST_IP cfg) then ([], strip (the (HOST_IP cfg)))
      else if truthy (IFACE cfg) then
        (case ip_addr_show e (the (IFACE cfg)) of
           None \<Rightarrow> ([IpAddrShow], ''0.0.0.0'')
         | Some out \<Rightarrow>
             (case scan_lines (splitlines (strip out)) of
                Some a \<Rightarrow> ([IpAddrShow], a)
              | None \<Rightarrow> route_tier e [IpAddrShow]))
      else route_tier e [])"

section \<open>The lines of a frame\<close>

text \<open>
  One pass of the main loop samples the five metrics into local variables, builds the four
  lines and draws them. The sampled values are the record \<open>snapshot\<close>; \<open>MOUNT\<close> is a
  parameter. The degree sign of line 2 is the character U+00B0.
\<close>

record snapshot =
  ip :: string
  cpu :: real
  temp :: "real option"
  ram :: real
  disk :: real

definition WIDTH :: nat where
  "WIDTH = 128"

definition HEIGHT :: nat where
  "HEIGHT = 64"

definition line1 :: "snapshot \<Rightarrow> ustring" where
  "line1 s = ustr (''IP: '' @ ip s)"

definition base2 :: "snapshot \<Rightarrow> ustring" where
  "base2 s = ustr (''CPU:'' @ fmt1 (cpu s) @ ''%'')"

definition line2_precise :: "snapshot \<Rightarrow> ustring" where
  "line2_precise s =
     (case temp s of
        Some t \<Rightarrow> base2 s @ ustr (''  T:'' @ fmt1 t @ [CHR 0xB0] @ ''C'')
      | None \<Rightarrow> base2 s)"

definition line2_ints :: "snapshot \<Rightarrow> ustring" where
  "line2_ints s =
     (case temp s of
        Some t \<Rightarrow> ustr (''CPU:'' @ str_int (py_round (cpu s)) @ ''%  T:''
                        @ str_int (py_round t) @ [CHR 0xB0] @ ''C'')
      | None \<Rightarrow> base2 s)"

definition line3 :: "snapshot \<Rightarrow> ustring" where
  "line3 s = ustr (''RAM:'' @ fmt1 (ram s) @ ''%'')"

definition line4 :: "string \<Rightarrow> snapshot \<Rightarrow> ustring" where
  "line4 mount s = ustr (''DISK('' @ mount @ ''):'' @ fmt1 (disk s) @ ''%'')"

text \<open>
  The body of \<open>with canvas(device) as draw\<close>: the line chosen for the second row
  (\<open>l2\<close>), and the four \<open>draw.text\<close> calls as pairs of the row and the text drawn.
\<close>

definition l2 :: "(ustring \<Rightarrow> real) \<Rightarrow> snapshot \<Rightarrow> real \<Rightarrow> ustring" where
  "l2 textlength s max_w =
     (if textlength (line2_precise s) > max_w then line2_ints s else line2_precise s)"

definition canvas_block :: "(ustring \<Rightarrow> real) \<Rightarrow> string \<Rightarrow> snapshot \<Rightarrow> (nat \<times> ustring) list" where
  "canvas_block textlength mount s =
     (let max_w = real WIDTH
      in [(0, fit textlength (line1 s) max_w),
          (14, fit textlength (l2 textlength s max_w) max_w),
          (28, fit textlength (line3 s) max_w),
          (42, fit textlength (line4 mount s) max_w)])"

section \<open>The display and the main loop\<close>

text \<open>
  What the program does to the outside is a list of effects, in order: a line printed,
  a sleep, a display handle returned by \<open>open_display\<close>, a frame sent to the display
  through a handle. A handle is the number of the attempt that created it.
\<close>

datatype effect =
    Print string
  | Sleep real
  | Acquired nat
  | Draw nat "(nat \<times> ustring) list"

text \<open>Whether an effect is the return of \<open>open_display\<close> with a new handle.\<close>

fun is_acquired :: "effect \<Rightarrow> bool" where
  "is_acquired (Acquired d) = True"
| "is_acquired _ = False"

text \<open>
  \<open>open_display\<close> retries for ever. Its argument is how the coming attempts at the bus
  and the driver end (\<open>True\<close>: the handle is created); against a finite list of attempts
  that all fail it has not returned, which is \<open>None\<close>. The number \<open>n\<close> counts the
  attempts made before.
\<close>

fun open_display :: "nat \<Rightarrow> bool list \<Rightarrow> (effect list \<times> nat) option" where
  "open_display n [] = None"
| "open_display n (ok # rest) =
     (if ok then Some ([], n)
      else (case open_display (Suc n) rest of
              None \<Rightarrow> None
            | Some (effs, dev) \<Rightarrow>
                Some (Print ''I2C/OLED init failed, retrying in 5s:'' # Sleep 5 # effs, dev)))"

record state =
  device :: nat
  effects :: "effect list"

text \<open>The five samples at the head of the loop body, in the order of the source.\<close>

definition sample :: "(string \<Rightarrow> real option) \<Rightarrow> config \<Rightarrow> os \<Rightarrow> exn + snapshot" where
  "sample float_of cfg e =
     (let ip_v = snd (get_ip cfg e)
      in case cpu_usage_percent (proc_stat_first e) (proc_stat_second e) of
           Inl x \<Rightarrow> Inl x
         | Inr cpu_v \<Rightarrow>
             (let temp_v = read_temp_c float_of (read_file e) (glob_hwmon e) (vcgencmd_out e)
              in case mem_usage_percent (proc_meminfo e) of
                   Inl x \<Rightarrow> Inl x
                 | Inr ram_v \<Rightarrow>
                     Inr \<lparr>ip = ip_v, cpu = cpu_v, temp = temp_v, ram = ram_v,
                          disk = disk_usage_percent (disk_usage e) (MOUNT cfg)\<rparr>))"

text \<open>
  One pass of \<open>while True\<close>: the body of \<open>try\<close>, and the handler of any exception. The
  frame reaches the display when the \<open>with\<close> block is left; a fault of the transport
  there (\<open>display_ok\<close> is false) raises into the handler. Nothing in the pass assigns
  \<open>device\<close>.
\<close>

definition loop_error :: "state \<Rightarrow> state" where
  "loop_error st = st\<lparr>effects := effects st @ [Print ''Loop error (continuing):'', Sleep 2]\<rparr>"

definition loop_pass ::
  "(string \<Rightarrow> real option) \<Rightarrow> (ustring \<Rightarrow> real) \<Rightarrow> config \<Rightarrow> os \<Rightarrow> state \<Rightarrow> state" where
  "loop_pass float_of textlength cfg e st =
     (case sample float_of cfg e of
        Inl x \<Rightarrow> loop_error st
      | Inr s \<Rightarrow>
          if display_ok e
          then st\<lparr>effects := effects st @
                    [Draw (device st) (canvas_block textlength (MOUNT cfg) s),
                     Sleep (UPDATE_SECS cfg)]\<rparr>
          else loop_error st)"

text \<open>The loop over the first passes, one element of the list for each.\<close>

fun main_loop ::
  "(string \<Rightarrow> real option) \<Rightarrow> (ustring \<Rightarrow> real) \<Rightarrow> config \<Rightarrow> os list \<Rightarrow> state \<Rightarrow> state" where
  "main_loop float_of textlength cfg [] st = st"
| "main_loop float_of textlength cfg (e # es) st =
     main_loop float_of textlength cfg es (loop_pass float_of textlength cfg e st)"

text \<open>The program: the handle is opened once, then the loop runs.\<close>

definition program ::
  "(string \<Rightarrow> real option) \<Rightarrow> (ustring \<Rightarrow> real) \<Rightarrow> config \<Rightarrow> bool list \<Rightarrow> os list \<Rightarrow> state option" where
  "program float_of textlength cfg attempts es =
     (case open_display 0 attempts of
        None \<Rightarrow> None
      | Some (effs, dev) \<Rightarrow>
          Some (main_loop float_of textlength cfg es
                  \<lparr>device = dev, effects = effs @ [Acquired dev]\<rparr>))"

section \<open>Measuring functions used in the examples\<close>

text \<open>
  Measuring functions for the concrete examples below: fonts whose every glyph is 7, 21
  and 130 pixels wide (the last wider than the display).
\<close>

definition glyphs7 :: "ustring \<Rightarrow> real" where
  "glyphs7 s = 7 * real (length s)"

definition glyphs21 :: "ustring \<Rightarrow> real" where
  "glyphs21 s = 21 * real (length s)"

definition glyphs130 :: "ustring \<Rightarrow> real" where
  "glyphs130 s = 130 * real (length s)"

section \<open>Inputs used in the examples\<close>

text \<open>
  A snapshot with a temperature and one without; a configuration with the defaults; a \<open>float\<close> that
  reads text of decimal digits only; and a system without temperature sensors whose
  counters, memory record, disk and route give the values 80.0, 75.0, 50.0 and 10.0.0.5,
  together with the same system when the display transport faults.
\<close>

definition snapshot_t :: snapshot where
  "snapshot_t = \<lparr>ip = ''10.0.0.5'', cpu = 123 / 10, temp = Some (456 / 10), ram = 40, disk = 50\<rparr>"

definition snapshot_n :: snapshot where
  "snapshot_n = \<lparr>ip = ''10.0.0.5'', cpu = 80, temp = None, ram = 75, disk = 50\<rparr>"

definition config_default :: config where
  "config_default = \<lparr>UPDATE_SECS = 2, MOUNT = ''/'', IFACE = None, HOST_IP = None\<rparr>"

definition float_digits :: "string \<Rightarrow> real option" where
  "float_digits s = (if s \<noteq> [] \<and> list_all is_digit s then Some (real (digits_value s)) else None)"

definition os_plain :: os where
  "os_plain =
     \<lparr>proc_stat_first = Some [''cpu  60 0 40 90 10 0 0 0 0 0'', ''cpu0 60 0 40 90 10 0 0 0 0 0''],
      proc_stat_second = Some [''cpu  90 0 50 95 15 0 0 0 0 0'', ''cpu0 90 0 50 95 15 0 0 0 0 0''],
      proc_meminfo = Some [''MemTotal:        2000000 kB'', ''MemAvailable:     500000 kB''],
      read_file = (\<lambda>p. None),
      glob_hwmon = [],
      vcgencmd_out = None,
      disk_usage = (\<lambda>p. if p = ''/'' then Some \<lparr>du_total = 1000, du_used = 500, du_free = 500\<rparr> else None),
      ip_addr_show = (\<lambda>i. if i = ''eth0''
                         then Some ''2: eth0    inet 192.168.1.5/24 brd 192.168.1.255 scope global eth0''
                         else None),
      ip_route_get = Some ''1.1.1.1 via 10.0.0.1 dev eth0 src 10.0.0.5 uid 0'',
      sock_name = None,
      display_ok = True\<rparr>"

definition os_fault :: os where
  "os_fault = os_plain\<lparr>display_ok := False\<rparr>"

text \<open>
  The same system with /proc/stat unreadable; a configuration that names the interface
  eth0, for which \<open>os_plain\<close> lists the address 192.168.1.5; the same system when the
  route lookup prints no \<open>src\<close> and the socket gives 10.0.0.9; a configuration that
  names an interface for which the \<open>ip\<close> command fails; a configuration with an
  override in spaces; and the state after the handle 0 was opened at the first attempt.
\<close>

definition os_nostat :: os where
  "os_nostat = os_plain\<lparr>proc_stat_first := None\<rparr>"

definition config_eth0 :: config where
  "config_eth0 = config_default\<lparr>IFACE := Some ''eth0''\<rparr>"

definition os_socket :: os where
  "os_socket = os_plain\<lparr>ip_route_get := Some ''1.1.1.1 via 10.0.0.1 dev eth0'',
                         sock_name := Some ''10.0.0.9''\<rparr>"

definition config_iface :: config where
  "config_iface = config_default\<lparr>IFACE := Some ''eth9''\<rparr>"

definition config_override :: config where
  "config_override = config_default\<lparr>HOST_IP := Some '' 10.0.0.7 ''\<rparr>"

definition state0 :: state where
  "state0 = \<lparr>device = 0, effects = [Acquired 0]\<rparr>"

section \<open>Properties of fit\<close>

declare fit_loop.simps [simp del]

lemma fit_loop_fits:
  "fit_loop m alt w = [] \<or> m (fit_loop m alt w @ [ellipsis]) \<le> w"
proof (induction m alt w rule: fit_loop.induct)
  case (1 m alt w)
  show ?case
  proof (cases "alt \<noteq> [] \<and> m (alt @ [ellipsis]) > w")
    case True
    then have "fit_loop m alt w = fit_loop m (butlast alt) w"
      by (subst fit_loop.simps) simp
    with 1 True show ?thesis by simp
  next
    case False
    then have "fit_loop m alt w = alt"
      by (subst fit_loop.simps) auto
    with False show ?thesis by auto
  qed
qed

lemma fit_loop_empty_first:
  "fit_loop m alt w = [] \<Longrightarrow> alt \<noteq> [] \<Longrightarrow> m ([hd alt, ellipsis]) > w"
proof (induction m alt w rule: fit_loop.induct)
  case (1 m alt w)
  show ?case
  proof (cases "m (alt @ [ellipsis]) > w")
    case True
    with 1 have eq: "fit_loop m (butlast alt) w = []"
      by (subst (asm) (2) fit_loop.simps) simp
    show ?thesis
    proof (cases "butlast alt = []")
      case True
      with \<open>alt \<noteq> []\<close> have "alt = [hd alt]"
        by (cases alt) (auto split: if_splits)
      with \<open>m (alt @ [ellipsis]) > w\<close> show ?thesis
        by (metis append_Cons append_Nil)
    next
      case False
      with 1 True eq have "m ([hd (butlast alt), ellipsis]) > w" by simp
      moreover from False have "hd (butlast alt) = hd alt"
        by (cases alt) (auto split: if_splits)
      ultimately show ?thesis by simp
    qed
  next
    case False
    with 1 have "fit_loop m alt w = alt"
      by (subst fit_loop.simps) auto
    with 1 show ?thesis by simp
  qed
qed

lemma fit_loop_single:
  "m ([c, ellipsis]) > w \<Longrightarrow> fit_loop m [c] w = []"
  by (subst fit_loop.simps, simp, subst fit_loop.simps, simp)

lemma fit_unchanged: "m s \<le> w \<Longrightarrow> fit m s w = s"
  by (simp add: fit_def)

lemma fit_cases:
  assumes "s \<noteq> []"
  shows "m (fit m s w) \<le> w \<or> (m ([hd s, ellipsis]) > w \<and> fit m s w = [hd s])"
proof (cases "m s \<le> w")
  case True
  then show ?thesis by (simp add: fit_def)
next
  case False
  show ?thesis
  proof (cases "fit_loop m s w = []")
    case nonempty: False
    with False have r: "fit m s w = fit_loop m s w @ [ellipsis]"
      by (simp add: fit_def)
    from nonempty fit_loop_fits [of m s w] show ?thesis
      by (simp add: r)
  next
    case empty: True
    with False have r: "fit m s w = take 1 s" by (simp add: fit_def)
    with assms have "fit m s w = [hd s]" by (cases s) simp_all
    with empty assms fit_loop_empty_first [of m s w] show ?thesis by simp
  qed
qed

text \<open>
  Claim C8. fit is idempotent: for every string, every width budget and every measuring
  function, fitting an already fitted string returns it unchanged.
\<close>

theorem fit_idempotent: "fit m (fit m s w) w = fit m s w"
proof (cases "m s \<le> w")
  case True
  then show ?thesis by (simp add: fit_def)
next
  case False
  show ?thesis
  proof (cases "fit_loop m s w = []")
    case nonempty: False
    with False have r: "fit m s w = fit_loop m s w @ [ellipsis]"
      by (simp add: fit_def)
    from nonempty fit_loop_fits [of m s w] have "m (fit m s w) \<le> w"
      by (simp add: r)
    then show ?thesis by (simp add: fit_def [of m "fit m s w"])
  next
    case empty: True
    with False have r: "fit m s w = take 1 s" by (simp add: fit_def)
    show ?thesis
    proof (cases s)
      case Nil
      with r have "fit m s w = []" by simp
      moreover have "fit_loop m [] w = []" by (subst fit_loop.simps) simp
      ultimately show ?thesis by (simp add: fit_def [of m "[]"])
    next
      case (Cons c cs)
      with r have r1: "fit m s w = [c]" by simp
      from Cons empty fit_loop_empty_first [of m s w] have "m ([c, ellipsis]) > w"
        by simp
      then have "fit_loop m [c] w = []" by (rule fit_loop_single)
      then show ?thesis by (simp add: r1 fit_def [of m "[c]"])
    qed
  qed
qed

text \<open>
  The same at a concrete input: with 21-pixel glyphs and a budget of 40 pixels the disk
  line is cut down to its first character, and fitting that character again returns it.
\<close>

theorem fit_idempotent_witness:
  "fit glyphs21 (ustr ''DISK(/mnt/data):100.0%'') 40 = ustr ''D'' \<and>
   fit glyphs21 (ustr ''D'') 40 = ustr ''D''"
proof -
  have a: "fit glyphs21 (ustr ''DISK(/mnt/data):100.0%'') 40 = ustr ''D''"
    by (simp add: fit_def fit_loop.simps ustr_def ellipsis_def glyphs21_def)
  from fit_idempotent [of glyphs21 "ustr ''DISK(/mnt/data):100.0%''" 40] a
  show ?thesis by simp
qed

text \<open>
  Claim C2. For every budget \<open>w \<ge> 1\<close>, every string and every measuring function (a
  measure of text width, which gives the empty string the width 0), fit returns either a
  string whose measured width is at most \<open>w\<close>, or, only when the first character
  followed by the ellipsis does not fit, the first character of the string alone.
\<close>

theorem fit_fits_or_first_char:
  assumes "1 \<le> w" and "m [] = 0"
  shows "m (fit m s w) \<le> w \<or>
    (s \<noteq> [] \<and> m ([hd s, ellipsis]) > w \<and> fit m s w = [hd s] \<and> length (fit m s w) = 1)"
proof (cases "s = []")
  case True
  from assms have "m [] \<le> w" by simp
  with True show ?thesis by (simp add: fit_def)
next
  case False
  with fit_cases [OF False, of m w] show ?thesis by auto
qed

theorem fit_fits_or_first_char_witness:
  "(1::real) \<le> 40 \<and> glyphs21 [] = 0 \<and>
   glyphs21 ([hd (ustr ''DISK(/mnt/data):100.0%''), ellipsis]) > 40 \<and>
   fit glyphs21 (ustr ''DISK(/mnt/data):100.0%'') 40 = ustr ''D'' \<and>
   fit glyphs21 (ustr ''RAM:40.0%'') 105 = ustr ''RAM:'' @ [ellipsis] \<and>
   glyphs21 (fit glyphs21 (ustr ''RAM:40.0%'') 105) \<le> 105 \<and>
   fit glyphs21 [] 40 = [] \<and> glyphs21 (fit glyphs21 [] 40) \<le> 40"
proof -
  have h1: "(1::real) \<le> 40" by simp
  have h2: "glyphs21 [] = 0" by (simp add: glyphs21_def)
  have w: "glyphs21 ([hd (ustr ''DISK(/mnt/data):100.0%''), ellipsis]) > 40"
    by (simp add: glyphs21_def)
  have v: "fit glyphs21 (ustr ''DISK(/mnt/data):100.0%'') 40 = ustr ''D''"
    by (simp add: fit_def fit_loop.simps ustr_def ellipsis_def glyphs21_def)
  have r: "fit glyphs21 (ustr ''RAM:40.0%'') 105 = ustr ''RAM:'' @ [ellipsis]"
    by (simp add: fit_def fit_loop.simps ustr_def ellipsis_def glyphs21_def)
  have "glyphs21 (ustr ''RAM:'' @ [ellipsis]) \<le> 105"
    by (simp add: ustr_def glyphs21_def)
  with r have rw: "glyphs21 (fit glyphs21 (ustr ''RAM:40.0%'') 105) \<le> 105" by simp
  from fit_fits_or_first_char [where m = glyphs21 and w = 40 and s = "[]", OF h1 h2]
  have e: "glyphs21 (fit glyphs21 [] 40) \<le> 40" by simp
  from fit_fits_or_first_char
    [where m = glyphs21 and w = 40 and s = "ustr ''DISK(/mnt/data):100.0%''", OF h1 h2]
  have "glyphs21 (fit glyphs21 (ustr ''DISK(/mnt/data):100.0%'') 40) \<le> 40 \<or>
        fit glyphs21 (ustr ''DISK(/mnt/data):100.0%'') 40 = [hd (ustr ''DISK(/mnt/data):100.0%'')]"
    by blast
  have e2: "fit glyphs21 [] 40 = []" by (simp add: fit_def glyphs21_def)
  from h1 h2 w v r rw e e2 show ?thesis by blast
qed

section \<open>The frame\<close>

declare str_nat.simps [simp del]

lemmas eval_text = ustr_def ellipsis_def is_space_def strip_def split_ws_def split_on_def
  splitlines_def is_linebreak_def is_digit_def digits_value_def py_int_def
lemmas eval_num = py_round_def round1_def digit_char_def str_nat.simps str_int_def fmt1_def Let_def
lemmas eval_lines = line1_def base2_def line2_precise_def line2_ints_def line3_def line4_def
  l2_def WIDTH_def

lemma sample_plain:
  "sample float_digits config_default os_plain = Inr \<lparr>ip = ''10.0.0.5'', cpu = 80, temp = None, ram = 75, disk = 50\<rparr>"
proof -
  have 1: "get_ip config_default os_plain = ([IpRouteGet], ''10.0.0.5'')"
    by (simp add: get_ip_def route_tier_def truthy_def config_default_def os_plain_def eval_text)
  have 2: "cpu_usage_percent (proc_stat_first os_plain) (proc_stat_second os_plain) = Inr 80"
    by (simp add: cpu_usage_percent_def read_stat_def os_plain_def eval_text eval_num)
  have 3: "read_temp_c float_digits (read_file os_plain) (glob_hwmon os_plain) (vcgencmd_out os_plain) = None"
    by (simp add: read_temp_c_def os_plain_def)
  have 4: "mem_usage_percent (proc_meminfo os_plain) = Inr 75"
    by (simp add: mem_usage_percent_def dict_get_def os_plain_def eval_text eval_num)
  have 5: "disk_usage_percent (disk_usage os_plain) (MOUNT config_default) = 50"
    by (simp add: disk_usage_percent_def os_plain_def config_default_def eval_num)
  show ?thesis
    by (simp add: sample_def 1 2 3 4 5)
qed

lemma line1_nonempty: "line1 s \<noteq> []"
  by (simp add: line1_def ustr_def)

lemma base2_nonempty: "base2 s \<noteq> []"
  by (simp add: base2_def ustr_def)

lemma l2_nonempty: "l2 m s w \<noteq> []"
  by (simp add: l2_def line2_precise_def line2_ints_def base2_nonempty ustr_def split: option.split)

lemma line3_nonempty: "line3 s \<noteq> []"
  by (simp add: line3_def ustr_def)

lemma line4_nonempty: "line4 mount s \<noteq> []"
  by (simp add: line4_def ustr_def)

text \<open>
  Claim C1, as the code has it. In every frame, for every snapshot and every measuring
  function, each of the four strings handed to \<open>draw.text\<close> is the fitted line, and
  its measured width is at most the display width, or else not even the first character
  of the line followed by the ellipsis fits and the string drawn is that first character
  alone.
\<close>

theorem frame_lines_fit_or_first_char:
  "list_all2
     (\<lambda>l (y, d). d = fit m l (real WIDTH) \<and>
        (m d \<le> real WIDTH \<or> (m ([hd l, ellipsis]) > real WIDTH \<and> d = [hd l])))
     [line1 s, l2 m s (real WIDTH), line3 s, line4 mount s]
     (canvas_block m mount s)"
  using fit_cases [OF line1_nonempty, of m s "real WIDTH"]
    fit_cases [OF l2_nonempty, of m m s "real WIDTH" "real WIDTH"]
    fit_cases [OF line3_nonempty, of m s "real WIDTH"]
    fit_cases [OF line4_nonempty, of m mount s "real WIDTH"]
  by (simp add: canvas_block_def Let_def)

lemma canvas_t: "canvas_block glyphs7 ''/'' snapshot_t =
     [(0, ustr ''IP: 10.0.0.5''), (14, ustr (''CPU:12%  T:46'' @ [CHR 0xB0] @ ''C'')),
      (28, ustr ''RAM:40.0%''), (42, ustr ''DISK(/):50.0%'')]"
  by (simp add: canvas_block_def fit_def glyphs7_def snapshot_t_def eval_lines eval_num ustr_def)

theorem frame_lines_fit_or_first_char_witness:
  "canvas_block glyphs7 ''/'' snapshot_t =
     [(0, ustr ''IP: 10.0.0.5''), (14, ustr (''CPU:12%  T:46'' @ [CHR 0xB0] @ ''C'')),
      (28, ustr ''RAM:40.0%''), (42, ustr ''DISK(/):50.0%'')] \<and>
   list_all2
     (\<lambda>l (y, d). d = fit glyphs7 l (real WIDTH) \<and>
        (glyphs7 d \<le> real WIDTH \<or> (glyphs7 ([hd l, ellipsis]) > real WIDTH \<and> d = [hd l])))
     [line1 snapshot_t, l2 glyphs7 snapshot_t (real WIDTH), line3 snapshot_t, line4 ''/'' snapshot_t]
     (canvas_block glyphs7 ''/'' snapshot_t)"
  using frame_lines_fit_or_first_char [of glyphs7 snapshot_t "''/''"] canvas_t
  by blast

text \<open>
  The claim as stated fails for a font whose glyphs are wider than the display: the first
  row is cut down to the character \<open>I\<close>, 130 pixels wide on a display of 128.
\<close>

theorem frame_first_char_too_wide_counterexample:
  "canvas_block glyphs130 ''/'' snapshot_t ! 0 = (0, ustr ''I'') \<and>
   \<not> glyphs130 (snd (canvas_block glyphs130 ''/'' snapshot_t ! 0)) \<le> real WIDTH"
proof -
  have "fit glyphs130 (ustr ''IP: 10.0.0.5'') 128 = ustr ''I''"
    by (simp add: fit_def fit_loop.simps glyphs130_def ustr_def)
  then show ?thesis
    by (simp add: canvas_block_def snapshot_t_def line1_def WIDTH_def glyphs130_def ustr_def)
qed



section \<open>The second line\<close>

text \<open>
  Claim C3. For every snapshot with a temperature: the precise line is
  \<open>CPU:{cpu:.1f}%  T:{temp:.1f}\<degree>C\<close> and the integer line is
  \<open>CPU:{round(cpu)}%  T:{round(temp)}\<degree>C\<close>; when the measured width of the precise
  line exceeds the budget, the line drawn is the integer line passed through fit (the
  precise line is never cut with an ellipsis); when the precise line fits, it is drawn
  unchanged.
\<close>

theorem line2_integer_fallback:
  assumes "temp s = Some t"
  shows "line2_precise s = ustr (''CPU:'' @ fmt1 (cpu s) @ ''%  T:'' @ fmt1 t @ [CHR 0xB0] @ ''C'') \<and>
    line2_ints s = ustr (''CPU:'' @ str_int (py_round (cpu s)) @ ''%  T:''
                          @ str_int (py_round t) @ [CHR 0xB0] @ ''C'') \<and>
    (m (line2_precise s) > real WIDTH \<longrightarrow>
       canvas_block m mount s ! 1 = (14, fit m (line2_ints s) (real WIDTH))) \<and>
    (m (line2_precise s) \<le> real WIDTH \<longrightarrow>
       canvas_block m mount s ! 1 = (14, line2_precise s))"
proof -
  have row: "canvas_block m mount s ! 1 = (14, fit m (l2 m s (real WIDTH)) (real WIDTH))"
    by (simp add: canvas_block_def Let_def)
  have precise: "line2_precise s =
      ustr (''CPU:'' @ fmt1 (cpu s) @ ''%  T:'' @ fmt1 t @ [CHR 0xB0] @ ''C'')"
    using assms by (simp add: line2_precise_def base2_def ustr_def)
  have ints: "line2_ints s =
      ustr (''CPU:'' @ str_int (py_round (cpu s)) @ ''%  T:'' @ str_int (py_round t) @ [CHR 0xB0] @ ''C'')"
    using assms by (simp add: line2_ints_def)
  have wide: "m (line2_precise s) > real WIDTH \<longrightarrow>
      canvas_block m mount s ! 1 = (14, fit m (line2_ints s) (real WIDTH))"
    using row by (simp add: l2_def)
  have narrow: "m (line2_precise s) \<le> real WIDTH \<longrightarrow>
      canvas_block m mount s ! 1 = (14, line2_precise s)"
    using row by (simp add: l2_def fit_unchanged)
  from precise ints wide narrow show ?thesis by blast
qed

theorem line2_integer_fallback_witness:
  "temp snapshot_t = Some (456 / 10) \<and>
   line2_precise snapshot_t = ustr (''CPU:12.3%  T:45.6'' @ [CHR 0xB0] @ ''C'') \<and>
   glyphs7 (line2_precise snapshot_t) > real WIDTH \<and>
   line2_ints snapshot_t = ustr (''CPU:12%  T:46'' @ [CHR 0xB0] @ ''C'') \<and>
   canvas_block glyphs7 ''/'' snapshot_t ! 1 = (14, ustr (''CPU:12%  T:46'' @ [CHR 0xB0] @ ''C''))"
proof -
  have t: "temp snapshot_t = Some (456 / 10)" by (simp add: snapshot_t_def)
  have p: "line2_precise snapshot_t = ustr (''CPU:12.3%  T:45.6'' @ [CHR 0xB0] @ ''C'')"
    by (simp add: snapshot_t_def eval_lines eval_num ustr_def)
  have i: "line2_ints snapshot_t = ustr (''CPU:12%  T:46'' @ [CHR 0xB0] @ ''C'')"
    by (simp add: snapshot_t_def eval_lines eval_num ustr_def)
  have w: "glyphs7 (line2_precise snapshot_t) > real WIDTH"
    by (simp add: p glyphs7_def WIDTH_def ustr_def)
  have f: "fit glyphs7 (line2_ints snapshot_t) (real WIDTH) = line2_ints snapshot_t"
    by (rule fit_unchanged) (simp add: i glyphs7_def WIDTH_def ustr_def)
  from line2_integer_fallback [OF t, of glyphs7 "''/''"] w
  have "canvas_block glyphs7 ''/'' snapshot_t ! 1 = (14, fit glyphs7 (line2_ints snapshot_t) (real WIDTH))"
    by blast
  with t p i w f show ?thesis by simp
qed

lemma temp_probe_None:
  "\<forall>p \<in> set ps. (case fs p of None \<Rightarrow> True | Some txt \<Rightarrow> float_of (strip txt) = None)
   \<Longrightarrow> temp_probe float_of fs ps = None"
  by (induction ps) (auto split: option.splits)

lemma sample_fields:
  assumes "sample float_of cfg e = Inr s"
  shows "temp s = read_temp_c float_of (read_file e) (glob_hwmon e) (vcgencmd_out e)"
  using assms by (auto simp: sample_def Let_def split: sum.splits)

text \<open>
  Claim C9. Whenever no sensor path yields a value and the fallback utility fails too,
  the sampled temperature is absent and the CPU line is exactly \<open>CPU:{cpu:.1f}%\<close>,
  with no temperature segment; this is the line handed to fit for the second row.
\<close>

theorem cpu_line_without_temperature:
  assumes sensors: "\<forall>p \<in> set ([''/sys/class/thermal/thermal_zone0/temp'',
                   ''/sys/class/hwmon/hwmon0/temp1_input'',
                   ''/sys/class/hwmon/hwmon1/temp1_input''] @ glob_hwmon e).
             (case read_file e p of None \<Rightarrow> True | Some txt \<Rightarrow> float_of (strip txt) = None)"
    and utility: "case vcgencmd_out e of None \<Rightarrow> True
             | Some out \<Rightarrow> float_of (replace [CHR 0x27, CHR ''C''] [] (replace ''temp='' [] (strip out))) = None"
    and sampled: "sample float_of cfg e = Inr s"
  shows "temp s = None \<and>
    l2 m s (real WIDTH) = ustr (''CPU:'' @ fmt1 (cpu s) @ ''%'') \<and>
    canvas_block m (MOUNT cfg) s ! 1 = (14, fit m (ustr (''CPU:'' @ fmt1 (cpu s) @ ''%'')) (real WIDTH))"
proof -
  from sensors have probe: "temp_probe float_of (read_file e)
       ([''/sys/class/thermal/thermal_zone0/temp'',
         ''/sys/class/hwmon/hwmon0/temp1_input'',
         ''/sys/class/hwmon/hwmon1/temp1_input''] @ glob_hwmon e) = None"
    by (rule temp_probe_None)
  have "read_temp_c float_of (read_file e) (glob_hwmon e) (vcgencmd_out e) = None"
    unfolding read_temp_c_def Let_def probe
    using utility by (cases "vcgencmd_out e") simp_all
  with sampled have absent: "temp s = None" by (simp add: sample_fields)
  then have line: "l2 m s (real WIDTH) = ustr (''CPU:'' @ fmt1 (cpu s) @ ''%'')"
    by (simp add: l2_def line2_precise_def line2_ints_def base2_def)
  have "canvas_block m (MOUNT cfg) s ! 1 = (14, fit m (l2 m s (real WIDTH)) (real WIDTH))"
    by (simp add: canvas_block_def Let_def)
  with absent line show ?thesis by simp
qed

theorem cpu_line_without_temperature_witness:
  "sample float_digits config_default os_plain =
     Inr \<lparr>ip = ''10.0.0.5'', cpu = 80, temp = None, ram = 75, disk = 50\<rparr> \<and>
   canvas_block glyphs7 ''/'' \<lparr>ip = ''10.0.0.5'', cpu = 80, temp = None, ram = 75, disk = 50\<rparr> ! 1
     = (14, ustr ''CPU:80.0%'')"
proof -
  let ?s = "\<lparr>ip = ''10.0.0.5'', cpu = 80, temp = None, ram = 75, disk = 50\<rparr>"
  have a: "\<forall>p \<in> set ([''/sys/class/thermal/thermal_zone0/temp'',
                   ''/sys/class/hwmon/hwmon0/temp1_input'',
                   ''/sys/class/hwmon/hwmon1/temp1_input''] @ glob_hwmon os_plain).
             (case read_file os_plain p of None \<Rightarrow> True | Some txt \<Rightarrow> float_digits (strip txt) = None)"
    by (simp add: os_plain_def)
  have b: "case vcgencmd_out os_plain of None \<Rightarrow> True
             | Some out \<Rightarrow> float_digits (replace [CHR 0x27, CHR ''C''] [] (replace ''temp='' [] (strip out))) = None"
    by (simp add: os_plain_def)
  have f: "fmt1 80 = ''80.0''" by (simp add: eval_num)
  have "fit glyphs7 (ustr ''CPU:80.0%'') (real WIDTH) = ustr ''CPU:80.0%''"
    by (rule fit_unchanged) (simp add: glyphs7_def WIDTH_def ustr_def)
  with cpu_line_without_temperature [OF a b sample_plain, of glyphs7] f sample_plain
  show ?thesis by (simp add: config_default_def)
qed


lemma fit_loop_take: "\<exists>n. fit_loop m alt w = take n alt"
proof (induction m alt w rule: fit_loop.induct)
  case (1 m alt w)
  show ?case
  proof (cases "alt \<noteq> [] \<and> m (alt @ [ellipsis]) > w")
    case True
    then have "fit_loop m alt w = fit_loop m (butlast alt) w"
      by (subst fit_loop.simps) simp
    with 1 True obtain n where "fit_loop m alt w = take n (butlast alt)" by auto
    then have "fit_loop m alt w = take (min n (length alt - 1)) alt"
      by (simp add: butlast_conv_take)
    then show ?thesis by blast
  next
    case False
    then have "fit_loop m alt w = alt"
      by (subst fit_loop.simps) auto
    then have "fit_loop m alt w = take (length alt) alt" by simp
    then show ?thesis by blast
  qed
qed

lemma fit_shape:
  "fit m s w = s \<or> (\<exists>n. fit m s w = take n s @ [ellipsis]) \<or> fit m s w = take 1 s"
  using fit_loop_take [of m s w] by (auto simp: fit_def Let_def)

text \<open>
  Claim C10. Whenever the temperature is absent, the integer variant of line 2 is the
  same string as the precise variant, \<open>CPU:{cpu:.1f}%\<close>, so the second row is fit
  applied to that string; when it overflows the budget the row is a prefix of it followed
  by the ellipsis (or, at worst, its first character), the value still at one decimal.
\<close>

theorem line2_without_temperature_skips_integer_tier:
  assumes "temp s = None"
  shows "line2_ints s = line2_precise s \<and>
    line2_precise s = ustr (''CPU:'' @ fmt1 (cpu s) @ ''%'') \<and>
    canvas_block m mount s ! 1 = (14, fit m (ustr (''CPU:'' @ fmt1 (cpu s) @ ''%'')) (real WIDTH)) \<and>
    (m (line2_precise s) > real WIDTH \<longrightarrow>
       (\<exists>n. snd (canvas_block m mount s ! 1) = take n (ustr (''CPU:'' @ fmt1 (cpu s) @ ''%'')) @ [ellipsis])
       \<or> snd (canvas_block m mount s ! 1) = take 1 (ustr (''CPU:'' @ fmt1 (cpu s) @ ''%'')))"
proof -
  let ?b = "ustr (''CPU:'' @ fmt1 (cpu s) @ ''%'')"
  from assms have p: "line2_precise s = ?b" and i: "line2_ints s = ?b"
    by (simp_all add: line2_precise_def line2_ints_def base2_def)
  have row: "canvas_block m mount s ! 1 = (14, fit m ?b (real WIDTH))"
    by (simp add: canvas_block_def Let_def l2_def p i)
  have "m ?b > real WIDTH \<longrightarrow>
       (\<exists>n. fit m ?b (real WIDTH) = take n ?b @ [ellipsis]) \<or> fit m ?b (real WIDTH) = take 1 ?b"
    using fit_loop_take [of m ?b "real WIDTH"] by (auto simp: fit_def Let_def)
  with p i row show ?thesis by simp
qed

theorem line2_without_temperature_skips_integer_tier_witness:
  "temp snapshot_n = None \<and> line2_ints snapshot_n = ustr ''CPU:80.0%'' \<and>
   glyphs21 (line2_precise snapshot_n) > real WIDTH \<and>
   canvas_block glyphs21 ''/'' snapshot_n ! 1 = (14, ustr ''CPU:8'' @ [ellipsis])"
proof -
  have t: "temp snapshot_n = None" by (simp add: snapshot_n_def)
  have f: "fmt1 (cpu snapshot_n) = ''80.0''" by (simp add: snapshot_n_def eval_num)
  have c: "fit glyphs21 (ustr ''CPU:80.0%'') (real WIDTH) = ustr ''CPU:8'' @ [ellipsis]"
    by (simp add: fit_def fit_loop.simps glyphs21_def WIDTH_def ustr_def ellipsis_def)
  from line2_without_temperature_skips_integer_tier [OF t, of glyphs21 "''/''"] f c t
  show ?thesis by (simp add: glyphs21_def WIDTH_def ustr_def)
qed

section \<open>Ranges of the metric values\<close>

lemma py_round_bounds:
  assumes "0 \<le> y" and "y \<le> of_int k"
  shows "0 \<le> py_round y \<and> py_round y \<le> k"
proof -
  have f0: "0 \<le> \<lfloor>y\<rfloor>" using assms(1) by simp
  have fk: "\<lfloor>y\<rfloor> \<le> k" using assms(2) by (simp add: floor_le_iff)
  have up: "\<lfloor>y\<rfloor> + 1 \<le> k" if "y - of_int \<lfloor>y\<rfloor> \<ge> 1 / 2"
  proof -
    from that have "of_int \<lfloor>y\<rfloor> < y" by linarith
    with assms(2) have "(of_int \<lfloor>y\<rfloor> :: real) < of_int k" by linarith
    then have "\<lfloor>y\<rfloor> < k" by simp
    then show ?thesis by simp
  qed
  show ?thesis
    using f0 fk up by (auto simp: py_round_def Let_def)
qed

lemma round1_bounds:
  assumes "0 \<le> x" and "x \<le> 100"
  shows "0 \<le> round1 x \<and> round1 x \<le> 100"
proof -
  have "0 \<le> x * 10" and "x * 10 \<le> of_int 1000" using assms by simp_all
  then have "0 \<le> py_round (x * 10) \<and> py_round (x * 10) \<le> 1000"
    by (rule py_round_bounds)
  then have "0 \<le> (of_int (py_round (x * 10)) :: real) \<and> (of_int (py_round (x * 10)) :: real) \<le> 1000"
    by (metis of_int_0_le_iff of_int_le_iff of_int_numeral)
  then show ?thesis by (simp add: round1_def)
qed

lemma cpu_bounds:
  assumes "read_stat f1 = Inr (idle1, total1)" and "read_stat f2 = Inr (idle2, total2)"
    and "0 \<le> idle2 - idle1" and "idle2 - idle1 \<le> total2 - total1"
  shows "\<exists>v. cpu_usage_percent f1 f2 = Inr v \<and> 0 \<le> v \<and> v \<le> 100"
proof (cases "total2 - total1 > 0")
  case True
  define q where "q = real_of_int (idle2 - idle1) / real_of_int (total2 - total1)"
  from True assms(3) have "0 \<le> q" unfolding q_def by simp
  moreover from True assms(4) have "q \<le> 1" unfolding q_def by simp
  ultimately have "0 \<le> 100 * (1 - q)" and "100 * (1 - q) \<le> 100" by simp_all
  then have "0 \<le> round1 (100 * (1 - q)) \<and> round1 (100 * (1 - q)) \<le> 100"
    by (rule round1_bounds)
  moreover from True assms(1,2)
  have "cpu_usage_percent f1 f2 = Inr (round1 (100 * (1 - q)))"
    unfolding q_def by (simp add: cpu_usage_percent_def Let_def)
  ultimately show ?thesis by blast
next
  case False
  with assms(1,2) show ?thesis by (simp add: cpu_usage_percent_def Let_def)
qed

lemma mem_bounds:
  assumes "meminfo_loop Map.empty lines = Inr mem"
    and "0 \<le> dict_get mem ''MemAvailable'' 0"
    and "dict_get mem ''MemAvailable'' 0 \<le> dict_get mem ''MemTotal'' 0"
  shows "\<exists>v. mem_usage_percent (Some lines) = Inr v \<and> 0 \<le> v \<and> v \<le> 100"
proof (cases "dict_get mem ''MemTotal'' 0 = 0")
  case True
  with assms(1) show ?thesis by (simp add: mem_usage_percent_def Let_def)
next
  case False
  let ?t = "dict_get mem ''MemTotal'' 0" and ?a = "dict_get mem ''MemAvailable'' 0"
  from False assms have tpos: "0 < ?t" by linarith
  let ?x = "100 * real_of_int (?t - ?a) / real_of_int ?t"
  from tpos assms have "0 \<le> ?x" by simp
  moreover from tpos assms have "real_of_int (?t - ?a) \<le> real_of_int ?t" by simp
  with tpos have "?x \<le> 100" by (simp add: divide_le_eq)
  ultimately have "0 \<le> round1 ?x \<and> round1 ?x \<le> 100" by (rule round1_bounds)
  with False assms(1) show ?thesis by (simp add: mem_usage_percent_def Let_def)
qed

lemma disk_bounds:
  assumes "\<forall>du. q path = Some du \<longrightarrow> 0 \<le> du_used du \<and> du_used du \<le> du_total du"
  shows "0 \<le> disk_usage_percent q path \<and> disk_usage_percent q path \<le> 100"
proof (cases "q path")
  case None
  then show ?thesis by (simp add: disk_usage_percent_def)
next
  case (Some du)
  show ?thesis
  proof (cases "du_total du = 0")
    case True
    with Some show ?thesis by (simp add: disk_usage_percent_def)
  next
    case False
    from assms Some have u: "0 \<le> du_used du" "du_used du \<le> du_total du" by simp_all
    with False have tpos: "0 < du_total du" by linarith
    let ?x = "real_of_int (du_used du) / real_of_int (du_total du) * 100"
    from u tpos have "0 \<le> ?x" by simp
    moreover from u tpos have "?x \<le> 100" by (simp add: divide_le_eq)
    ultimately have "0 \<le> round1 ?x \<and> round1 ?x \<le> 100" by (rule round1_bounds)
    with Some False show ?thesis by (simp add: disk_usage_percent_def)
  qed
qed


lemma read_stat_first_plain: "read_stat (proc_stat_first os_plain) = Inr (100, 200)"
  by (simp add: read_stat_def os_plain_def eval_text)

lemma read_stat_second_plain: "read_stat (proc_stat_second os_plain) = Inr (110, 250)"
  by (simp add: read_stat_def os_plain_def eval_text)

lemma meminfo_plain:
  "meminfo_loop Map.empty [''MemTotal:        2000000 kB'', ''MemAvailable:     500000 kB'']
     = Inr [''MemTotal'' \<mapsto> 2000000, ''MemAvailable'' \<mapsto> 500000]"
  by (simp add: eval_text)

lemma cpu_zero:
  "read_stat f1 = Inr (idle1, total1) \<Longrightarrow> read_stat f2 = Inr (idle2, total2) \<Longrightarrow>
   total2 - total1 \<le> 0 \<Longrightarrow> cpu_usage_percent f1 f2 = Inr 0"
  by (simp add: cpu_usage_percent_def Let_def)

lemma mem_zero:
  "meminfo_loop Map.empty lines = Inr mem \<Longrightarrow> dict_get mem ''MemTotal'' 0 = 0 \<Longrightarrow>
   mem_usage_percent (Some lines) = Inr 0"
  by (simp add: mem_usage_percent_def Let_def)

lemma disk_zero:
  "q path = None \<or> (\<exists>du. q path = Some du \<and> du_total du = 0) \<Longrightarrow> disk_usage_percent q path = 0"
  by (auto simp: disk_usage_percent_def)

text \<open>
  Claim C7, as the code has it. The CPU value is 0.0 when both reads of the counters
  succeed and the delta of the total is not positive, and lies in [0, 100] when the idle
  delta lies between 0 and the total delta. The memory value is 0.0 when the record
  parses and MemTotal is zero or missing, and lies in [0, 100] when MemAvailable lies
  between 0 and MemTotal. The disk value is 0.0 when the query fails or the total size
  is zero, and lies in [0, 100] when the used size lies between 0 and the total size.
  No value is clamped.
\<close>

theorem percent_bounds:
  "(read_stat f1 = Inr (idle1, total1) \<and> read_stat f2 = Inr (idle2, total2) \<longrightarrow>
      (total2 - total1 \<le> 0 \<longrightarrow> cpu_usage_percent f1 f2 = Inr 0) \<and>
      (0 \<le> idle2 - idle1 \<and> idle2 - idle1 \<le> total2 - total1 \<longrightarrow>
         (\<exists>v. cpu_usage_percent f1 f2 = Inr v \<and> 0 \<le> v \<and> v \<le> 100))) \<and>
   (meminfo_loop Map.empty lines = Inr mem \<longrightarrow>
      (dict_get mem ''MemTotal'' 0 = 0 \<longrightarrow> mem_usage_percent (Some lines) = Inr 0) \<and>
      (0 \<le> dict_get mem ''MemAvailable'' 0 \<and>
       dict_get mem ''MemAvailable'' 0 \<le> dict_get mem ''MemTotal'' 0 \<longrightarrow>
         (\<exists>v. mem_usage_percent (Some lines) = Inr v \<and> 0 \<le> v \<and> v \<le> 100))) \<and>
   (q path = None \<longrightarrow> disk_usage_percent q path = 0) \<and>
   (q path = Some du \<longrightarrow>
      (du_total du = 0 \<longrightarrow> disk_usage_percent q path = 0) \<and>
      (0 \<le> du_used du \<and> du_used du \<le> du_total du \<longrightarrow>
         0 \<le> disk_usage_percent q path \<and> disk_usage_percent q path \<le> 100))"
proof -
  have c: "read_stat f1 = Inr (idle1, total1) \<and> read_stat f2 = Inr (idle2, total2) \<longrightarrow>
      (total2 - total1 \<le> 0 \<longrightarrow> cpu_usage_percent f1 f2 = Inr 0) \<and>
      (0 \<le> idle2 - idle1 \<and> idle2 - idle1 \<le> total2 - total1 \<longrightarrow>
         (\<exists>v. cpu_usage_percent f1 f2 = Inr v \<and> 0 \<le> v \<and> v \<le> 100))"
    using cpu_zero [of f1 idle1 total1 f2 idle2 total2]
      cpu_bounds [of f1 idle1 total1 f2 idle2 total2] by blast
  have m: "meminfo_loop Map.empty lines = Inr mem \<longrightarrow>
      (dict_get mem ''MemTotal'' 0 = 0 \<longrightarrow> mem_usage_percent (Some lines) = Inr 0) \<and>
      (0 \<le> dict_get mem ''MemAvailable'' 0 \<and>
       dict_get mem ''MemAvailable'' 0 \<le> dict_get mem ''MemTotal'' 0 \<longrightarrow>
         (\<exists>v. mem_usage_percent (Some lines) = Inr v \<and> 0 \<le> v \<and> v \<le> 100))"
    using mem_zero [of lines mem] mem_bounds [of lines mem] by blast
  have d0: "q path = None \<longrightarrow> disk_usage_percent q path = 0"
    using disk_zero [of q path] by blast
  have d1: "q path = Some du \<longrightarrow>
      (du_total du = 0 \<longrightarrow> disk_usage_percent q path = 0) \<and>
      (0 \<le> du_used du \<and> du_used du \<le> du_total du \<longrightarrow>
         0 \<le> disk_usage_percent q path \<and> disk_usage_percent q path \<le> 100)"
    using disk_zero [of q path] disk_bounds [of q path] by auto
  from c m d0 d1 show ?thesis by blast
qed

theorem percent_bounds_witness:
  "cpu_usage_percent (proc_stat_first os_plain) (proc_stat_second os_plain) = Inr 80 \<and>
   cpu_usage_percent (proc_stat_first os_plain) (proc_stat_first os_plain) = Inr 0 \<and>
   mem_usage_percent (Some [''MemTotal:        2000000 kB'', ''MemAvailable:     500000 kB'']) = Inr 75 \<and>
   mem_usage_percent (Some [''MemFree: 7 kB'']) = Inr 0 \<and>
   disk_usage_percent (disk_usage os_plain) ''/'' = 50 \<and>
   disk_usage_percent (disk_usage os_plain) ''/mnt/none'' = 0 \<and>
   disk_usage_percent (\<lambda>p. Some \<lparr>du_total = 0, du_used = 0, du_free = 0\<rparr>) ''/proc'' = 0 \<and>
   (\<exists>v. cpu_usage_percent (proc_stat_first os_plain) (proc_stat_second os_plain) = Inr v \<and>
        0 \<le> v \<and> v \<le> 100) \<and>
   (\<exists>v. mem_usage_percent (Some [''MemTotal:        2000000 kB'', ''MemAvailable:     500000 kB''])
          = Inr v \<and> 0 \<le> v \<and> v \<le> 100) \<and>
   0 \<le> disk_usage_percent (disk_usage os_plain) ''/'' \<and>
   disk_usage_percent (disk_usage os_plain) ''/'' \<le> 100"
proof -
  have c: "cpu_usage_percent (proc_stat_first os_plain) (proc_stat_second os_plain) = Inr 80"
    by (simp add: cpu_usage_percent_def read_stat_first_plain read_stat_second_plain eval_num)
  have m: "mem_usage_percent (Some [''MemTotal:        2000000 kB'', ''MemAvailable:     500000 kB'']) = Inr 75"
    by (simp add: mem_usage_percent_def dict_get_def eval_text eval_num)
  have d: "disk_usage_percent (disk_usage os_plain) ''/'' = 50"
    by (simp add: disk_usage_percent_def os_plain_def eval_num)
  have hc: "(0::int) \<le> 110 - 100 \<and> (110::int) - 100 \<le> 250 - 200" by simp
  have hm: "0 \<le> dict_get [''MemTotal'' \<mapsto> 2000000, ''MemAvailable'' \<mapsto> 500000] ''MemAvailable'' 0 \<and>
      dict_get [''MemTotal'' \<mapsto> 2000000, ''MemAvailable'' \<mapsto> 500000] ''MemAvailable'' 0
        \<le> dict_get [''MemTotal'' \<mapsto> 2000000, ''MemAvailable'' \<mapsto> 500000] ''MemTotal'' 0"
    by (simp add: dict_get_def)
  have hd: "disk_usage os_plain ''/'' = Some \<lparr>du_total = 1000, du_used = 500, du_free = 500\<rparr>"
    by (simp add: os_plain_def)
  have hu: "0 \<le> du_used \<lparr>du_total = 1000, du_used = 500, du_free = 500\<rparr> \<and>
      du_used \<lparr>du_total = 1000, du_used = 500, du_free = 500\<rparr>
        \<le> du_total \<lparr>du_total = 1000, du_used = 500, du_free = 500\<rparr>"
    by simp
  from percent_bounds [of "proc_stat_first os_plain" 100 200 "proc_stat_second os_plain" 110 250
      "[''MemTotal:        2000000 kB'', ''MemAvailable:     500000 kB'']"
      "[''MemTotal'' \<mapsto> 2000000, ''MemAvailable'' \<mapsto> 500000]" "disk_usage os_plain" "''/''"
      "\<lparr>du_total = 1000, du_used = 500, du_free = 500\<rparr>"]
    read_stat_first_plain read_stat_second_plain meminfo_plain hc hm hd hu
  have b: "(\<exists>v. cpu_usage_percent (proc_stat_first os_plain) (proc_stat_second os_plain) = Inr v \<and>
        0 \<le> v \<and> v \<le> 100) \<and>
   (\<exists>v. mem_usage_percent (Some [''MemTotal:        2000000 kB'', ''MemAvailable:     500000 kB''])
          = Inr v \<and> 0 \<le> v \<and> v \<le> 100) \<and>
   0 \<le> disk_usage_percent (disk_usage os_plain) ''/'' \<and>
   disk_usage_percent (disk_usage os_plain) ''/'' \<le> 100"
    by blast
  have z1: "(200::int) - 200 \<le> 0" by simp
  from percent_bounds [of "proc_stat_first os_plain" 100 200 "proc_stat_first os_plain" 100 200
      "[''MemFree: 7 kB'']" "[''MemFree'' \<mapsto> 7]" "disk_usage os_plain" "''/mnt/none''"]
    read_stat_first_plain z1
  have c0: "cpu_usage_percent (proc_stat_first os_plain) (proc_stat_first os_plain) = Inr 0"
    by blast
  have ml: "meminfo_loop Map.empty [''MemFree: 7 kB''] = Inr [''MemFree'' \<mapsto> 7]"
    by (simp add: eval_text)
  have mz: "dict_get [''MemFree'' \<mapsto> 7] ''MemTotal'' 0 = 0" by (simp add: dict_get_def)
  have dn: "disk_usage os_plain ''/mnt/none'' = None" by (simp add: os_plain_def)
  from percent_bounds [of "proc_stat_first os_plain" 100 200 "proc_stat_first os_plain" 100 200
      "[''MemFree: 7 kB'']" "[''MemFree'' \<mapsto> 7]" "disk_usage os_plain" "''/mnt/none''"]
    ml mz dn
  have m0: "mem_usage_percent (Some [''MemFree: 7 kB'']) = Inr 0"
    and d0: "disk_usage_percent (disk_usage os_plain) ''/mnt/none'' = 0"
    by blast+
  from percent_bounds [where q = "\<lambda>p. Some \<lparr>du_total = 0, du_used = 0, du_free = 0\<rparr>"
      and path = "''/proc''" and du = "\<lparr>du_total = 0, du_used = 0, du_free = 0\<rparr>"]
  have dz: "disk_usage_percent (\<lambda>p. Some \<lparr>du_total = 0, du_used = 0, du_free = 0\<rparr>) ''/proc'' = 0"
    by simp
  from c m d b c0 m0 d0 dz show ?thesis by blast
qed

text \<open>
  The claim as stated, for every state of the counters and filesystems, fails for each of
  the three values. The sum of idle and I/O-wait time goes down between the two reads
  (the I/O-wait counter is not monotonic) while the total rises by 40: the CPU value is
  150.0. The memory record lists more available than total memory: the value is -20.0.
  The filesystem reports more free than total blocks, so that the used size is negative:
  the value is -2.4.
\<close>

theorem percent_out_of_range_counterexample:
  "cpu_usage_percent (Some [''cpu  100 0 50 800 50 0 0 0 0 0''])
                     (Some [''cpu  150 0 60 810 20 0 0 0 0 0'']) = Inr 150 \<and>
   \<not> (150 :: real) \<le> 100 \<and>
   mem_usage_percent (Some [''MemTotal:        1000000 kB'', ''MemAvailable:    1200000 kB''])
     = Inr (- 20) \<and>
   \<not> (0 :: real) \<le> - 20 \<and>
   disk_usage_percent (\<lambda>p. Some \<lparr>du_total = 1000, du_used = - 24, du_free = 1024\<rparr>) ''/''
     = - (24 / 10) \<and>
   \<not> (0 :: real) \<le> - (24 / 10)"
proof -
  have c: "cpu_usage_percent (Some [''cpu  100 0 50 800 50 0 0 0 0 0''])
                     (Some [''cpu  150 0 60 810 20 0 0 0 0 0'']) = Inr 150"
    by (simp add: cpu_usage_percent_def read_stat_def eval_text eval_num)
  have m: "mem_usage_percent (Some [''MemTotal:        1000000 kB'', ''MemAvailable:    1200000 kB''])
     = Inr (- 20)"
    by (simp add: mem_usage_percent_def dict_get_def eval_text eval_num)
  have d: "disk_usage_percent (\<lambda>p. Some \<lparr>du_total = 1000, du_used = - 24, du_free = 1024\<rparr>) ''/''
     = - (24 / 10)"
    by (simp add: disk_usage_percent_def eval_num)
  from c m d show ?thesis by simp
qed

section \<open>Failures of the metric sources\<close>

text \<open>
  Claim C4. Every metric source is to return a value and never raise, 0.0 standing for
  an unreadable source. \<open>disk_usage_percent\<close> does so. \<open>cpu_usage_percent\<close> and
  \<open>mem_usage_percent\<close> do not: when /proc/stat or /proc/meminfo cannot be opened they
  raise the error of \<open>open\<close>, and on a line that does not parse they raise ValueError
  or IndexError; the pass of the main loop then ends in the handler and draws nothing.
\<close>

theorem unreadable_source_raises:
  "cpu_usage_percent None (proc_stat_second os_plain) = Inl OSError \<and>
   cpu_usage_percent (proc_stat_first os_plain) None = Inl OSError \<and>
   cpu_usage_percent (Some [''cpu  1 2 3'']) (proc_stat_second os_plain) = Inl IndexError \<and>
   cpu_usage_percent (Some [''cpu  1 2 x 4 5'']) (proc_stat_second os_plain) = Inl ValueError \<and>
   mem_usage_percent None = Inl OSError \<and>
   mem_usage_percent (Some [''MemTotal 2000000 kB'']) = Inl ValueError \<and>
   mem_usage_percent (Some [''MemTotal:'']) = Inl IndexError \<and>
   mem_usage_percent (Some [''MemTotal: many kB'']) = Inl ValueError \<and>
   disk_usage_percent (disk_usage os_plain) ''/mnt/none'' = 0 \<and>
   sample float_digits config_default os_nostat = Inl OSError \<and>
   loop_pass float_digits glyphs7 config_default os_nostat state0 =
     \<lparr>device = 0, effects = [Acquired 0, Print ''Loop error (continuing):'', Sleep 2]\<rparr>"
proof -
  have a: "cpu_usage_percent None (proc_stat_second os_plain) = Inl OSError"
    by (simp add: cpu_usage_percent_def read_stat_def)
  have b: "cpu_usage_percent (proc_stat_first os_plain) None = Inl OSError"
    by (simp add: cpu_usage_percent_def read_stat_def os_plain_def eval_text)
  have c: "cpu_usage_percent (Some [''cpu  1 2 3'']) (proc_stat_second os_plain) = Inl IndexError"
    by (simp add: cpu_usage_percent_def read_stat_def eval_text)
  have d: "cpu_usage_percent (Some [''cpu  1 2 x 4 5'']) (proc_stat_second os_plain) = Inl ValueError"
    by (simp add: cpu_usage_percent_def read_stat_def eval_text)
  have e: "mem_usage_percent None = Inl OSError"
    by (simp add: mem_usage_percent_def)
  have f: "mem_usage_percent (Some [''MemTotal 2000000 kB'']) = Inl ValueError"
    by (simp add: mem_usage_percent_def eval_text)
  have g: "mem_usage_percent (Some [''MemTotal:'']) = Inl IndexError"
    by (simp add: mem_usage_percent_def eval_text)
  have h: "mem_usage_percent (Some [''MemTotal: many kB'']) = Inl ValueError"
    by (simp add: mem_usage_percent_def eval_text)
  have i: "disk_usage_percent (disk_usage os_plain) ''/mnt/none'' = 0"
    by (simp add: disk_usage_percent_def os_plain_def)
  have j: "sample float_digits config_default os_nostat = Inl OSError"
    by (simp add: sample_def cpu_usage_percent_def read_stat_def os_nostat_def)
  have k: "loop_pass float_digits glyphs7 config_default os_nostat state0 =
     \<lparr>device = 0, effects = [Acquired 0, Print ''Loop error (continuing):'', Sleep 2]\<rparr>"
    by (simp add: loop_pass_def j loop_error_def state0_def)
  from a b c d e f g h i j k show ?thesis by blast
qed

section \<open>The tiers of get_ip\<close>

lemma split_on_go_hd:
  "split_on_go sep cur s \<noteq> [] \<and>
   hd (split_on_go sep cur s) = cur @ takeWhile (\<lambda>c. c \<noteq> sep) s"
  by (induction s arbitrary: cur) simp_all

lemma split_on_go_shape:
  "\<exists>rest. split_on_go sep cur s = (cur @ takeWhile (\<lambda>c. c \<noteq> sep) s) # rest"
  using split_on_go_hd [of sep cur s] by (cases "split_on_go sep cur s") auto

lemma scan_tokens_find:
  "scan_tokens ps = map_option (takeWhile (\<lambda>c. c \<noteq> CHR ''/'')) (find addr_token ps)"
proof (induction ps)
  case Nil
  show ?case by simp
next
  case (Cons p ps)
  from split_on_go_shape [of "CHR ''/''" "[]" p]
  obtain rest where "split_on CHR ''/'' p = takeWhile (\<lambda>c. c \<noteq> CHR ''/'') p # rest"
    by (auto simp: split_on_def)
  with Cons show ?case by simp
qed

lemma find_append:
  "find P (xs @ ys) = (case find P xs of Some x \<Rightarrow> Some x | None \<Rightarrow> find P ys)"
  by (induction xs) auto

lemma scan_lines_find:
  "scan_lines ls =
     map_option (takeWhile (\<lambda>c. c \<noteq> CHR ''/'')) (find addr_token (concat (map split_ws ls)))"
proof (induction ls)
  case Nil
  show ?case by simp
next
  case (Cons l ls)
  show ?case
    by (cases "find addr_token (split_ws l)")
       (simp_all add: Cons scan_tokens_find find_append)
qed

lemma scan_src_dropWhile:
  "scan_src toks =
     (case dropWhile (\<lambda>t. t \<noteq> ''src'') toks of t # u # rest \<Rightarrow> Some u | _ \<Rightarrow> None)"
  by (induction toks rule: scan_src.induct) simp_all


lemma route_tier_src:
  "ip_route_get e = Some ro \<Longrightarrow> dropWhile (\<lambda>t. t \<noteq> ''src'') (split_ws ro) = t # u # rest \<Longrightarrow>
   route_tier e asked = (asked @ [IpRouteGet], u)"
  by (simp add: route_tier_def scan_src_dropWhile)

lemma route_tier_socket:
  "ip_route_get e = Some ro \<Longrightarrow> length (dropWhile (\<lambda>t. t \<noteq> ''src'') (split_ws ro)) < 2 \<Longrightarrow>
   route_tier e asked =
     (asked @ [IpRouteGet, SocketConnect], case sock_name e of None \<Rightarrow> ''0.0.0.0'' | Some c \<Rightarrow> c)"
  by (auto simp: route_tier_def scan_src_dropWhile split: list.splits option.splits)

lemma route_tier_asked:
  "fst (route_tier e asked) =
     asked @ (if (\<exists>ro. ip_route_get e = Some ro \<and> scan_src (split_ws ro) = None)
              then [IpRouteGet, SocketConnect] else [IpRouteGet])"
  by (auto simp: route_tier_def split: option.splits)

lemma second_None:
  "(case d of t # u # rest \<Rightarrow> Some u | _ \<Rightarrow> None) = None \<longleftrightarrow> length d < 2"
proof (cases d)
  case Nil
  then show ?thesis by simp
next
  case (Cons t r)
  then show ?thesis by (cases r) simp_all
qed

lemma scan_src_None:
  "scan_src toks = None \<longleftrightarrow> length (dropWhile (\<lambda>t. t \<noteq> ''src'') toks) < 2"
  unfolding scan_src_dropWhile by (rule second_None)

text \<open>
  Claim C6, as the code has it. (1) A non-empty override is returned with the surrounding
  whitespace stripped, and nothing is asked of the system. (2) Without an override and
  with an interface configured, the first token of the command's output that holds a
  slash and exactly three dots gives the address, up to the slash. (3) Without an
  override, and with no interface configured or no such token in its output, the route
  is looked up: the token after the first \<open>src\<close> is the address; without one the
  socket is tried and gives the address, or (4) 0.0.0.0 when it fails. A tier is tried
  only if there is no override and no earlier tier yielded an address. What follows a
  failure of the interface or route command itself is not stated here.
\<close>

theorem get_ip_tiers:
  "(truthy (HOST_IP cfg) \<longrightarrow> get_ip cfg e = ([], strip (the (HOST_IP cfg)))) \<and>
   (\<not> truthy (HOST_IP cfg) \<and> truthy (IFACE cfg) \<and>
    ip_addr_show e (the (IFACE cfg)) = Some out \<and>
    find addr_token (concat (map split_ws (splitlines (strip out)))) = Some p
      \<longrightarrow> get_ip cfg e = ([IpAddrShow], takeWhile (\<lambda>c. c \<noteq> CHR ''/'') p)) \<and>
   (\<not> truthy (HOST_IP cfg) \<and>
    (truthy (IFACE cfg) \<longrightarrow>
       ip_addr_show e (the (IFACE cfg)) = Some out \<and>
       find addr_token (concat (map split_ws (splitlines (strip out)))) = None) \<and>
    ip_route_get e = Some ro
      \<longrightarrow> (dropWhile (\<lambda>t. t \<noteq> ''src'') (split_ws ro) = t # u # rest \<longrightarrow>
             get_ip cfg e = ((if truthy (IFACE cfg) then [IpAddrShow] else []) @ [IpRouteGet], u)) \<and>
          (length (dropWhile (\<lambda>t. t \<noteq> ''src'') (split_ws ro)) < 2 \<longrightarrow>
             get_ip cfg e =
               ((if truthy (IFACE cfg) then [IpAddrShow] else []) @ [IpRouteGet, SocketConnect],
                case sock_name e of None \<Rightarrow> ''0.0.0.0'' | Some c \<Rightarrow> c))) \<and>
   (IpAddrShow \<in> set (fst (get_ip cfg e)) \<longrightarrow> \<not> truthy (HOST_IP cfg) \<and> truthy (IFACE cfg)) \<and>
   (IpRouteGet \<in> set (fst (get_ip cfg e)) \<longrightarrow>
      \<not> truthy (HOST_IP cfg) \<and>
      \<not> (truthy (IFACE cfg) \<and>
         (\<exists>o2 p2. ip_addr_show e (the (IFACE cfg)) = Some o2 \<and>
            find addr_token (concat (map split_ws (splitlines (strip o2)))) = Some p2))) \<and>
   (SocketConnect \<in> set (fst (get_ip cfg e)) \<longrightarrow>
      IpRouteGet \<in> set (fst (get_ip cfg e)) \<and>
      \<not> (\<exists>r2 t2 u2 rest2. ip_route_get e = Some r2 \<and>
            dropWhile (\<lambda>t. t \<noteq> ''src'') (split_ws r2) = t2 # u2 # rest2))"
proof -
  have 1: "truthy (HOST_IP cfg) \<longrightarrow> get_ip cfg e = ([], strip (the (HOST_IP cfg)))"
    by (simp add: get_ip_def)
  have 2: "\<not> truthy (HOST_IP cfg) \<and> truthy (IFACE cfg) \<and>
    ip_addr_show e (the (IFACE cfg)) = Some out \<and>
    find addr_token (concat (map split_ws (splitlines (strip out)))) = Some p
      \<longrightarrow> get_ip cfg e = ([IpAddrShow], takeWhile (\<lambda>c. c \<noteq> CHR ''/'') p)"
    by (simp add: get_ip_def scan_lines_find)
  have pre: "get_ip cfg e = route_tier e (if truthy (IFACE cfg) then [IpAddrShow] else [])"
    if "\<not> truthy (HOST_IP cfg)" and
       "truthy (IFACE cfg) \<longrightarrow>
          ip_addr_show e (the (IFACE cfg)) = Some out \<and>
          find addr_token (concat (map split_ws (splitlines (strip out)))) = None"
    using that by (simp add: get_ip_def scan_lines_find)
  have 3: "\<not> truthy (HOST_IP cfg) \<and>
    (truthy (IFACE cfg) \<longrightarrow>
       ip_addr_show e (the (IFACE cfg)) = Some out \<and>
       find addr_token (concat (map split_ws (splitlines (strip out)))) = None) \<and>
    ip_route_get e = Some ro
      \<longrightarrow> (dropWhile (\<lambda>t. t \<noteq> ''src'') (split_ws ro) = t # u # rest \<longrightarrow>
             get_ip cfg e = ((if truthy (IFACE cfg) then [IpAddrShow] else []) @ [IpRouteGet], u)) \<and>
          (length (dropWhile (\<lambda>t. t \<noteq> ''src'') (split_ws ro)) < 2 \<longrightarrow>
             get_ip cfg e =
               ((if truthy (IFACE cfg) then [IpAddrShow] else []) @ [IpRouteGet, SocketConnect],
                case sock_name e of None \<Rightarrow> ''0.0.0.0'' | Some c \<Rightarrow> c))"
    using pre route_tier_src [of e ro t u rest] route_tier_socket [of e ro]
    by (metis (no_types, lifting))
  have 4: "IpAddrShow \<in> set (fst (get_ip cfg e)) \<longrightarrow> \<not> truthy (HOST_IP cfg) \<and> truthy (IFACE cfg)"
    by (auto simp: get_ip_def route_tier_asked split: option.splits if_splits)
  have 5: "IpRouteGet \<in> set (fst (get_ip cfg e)) \<longrightarrow>
      \<not> truthy (HOST_IP cfg) \<and>
      \<not> (truthy (IFACE cfg) \<and>
         (\<exists>o2 p2. ip_addr_show e (the (IFACE cfg)) = Some o2 \<and>
            find addr_token (concat (map split_ws (splitlines (strip o2)))) = Some p2))"
    by (auto simp: get_ip_def route_tier_asked scan_lines_find split: option.splits if_splits)
  have 6: "SocketConnect \<in> set (fst (get_ip cfg e)) \<longrightarrow>
      IpRouteGet \<in> set (fst (get_ip cfg e)) \<and>
      \<not> (\<exists>r2 t2 u2 rest2. ip_route_get e = Some r2 \<and>
            dropWhile (\<lambda>t. t \<noteq> ''src'') (split_ws r2) = t2 # u2 # rest2)"
    by (auto simp: get_ip_def route_tier_asked scan_src_None split: option.splits if_splits)
  from 1 2 3 4 5 6 show ?thesis by blast
qed


theorem get_ip_tiers_witness:
  "get_ip config_override os_plain = ([], ''10.0.0.7'') \<and>
   get_ip config_eth0 os_plain = ([IpAddrShow], ''192.168.1.5'') \<and>
   get_ip config_default os_plain = ([IpRouteGet], ''10.0.0.5'') \<and>
   get_ip config_default os_socket = ([IpRouteGet, SocketConnect], ''10.0.0.9'') \<and>
   get_ip config_default (os_socket\<lparr>sock_name := None\<rparr>)
     = ([IpRouteGet, SocketConnect], ''0.0.0.0'')"
proof -
  have t1: "truthy (HOST_IP config_override)"
    by (simp add: truthy_def config_override_def config_default_def)
  have s1: "strip (the (HOST_IP config_override)) = ''10.0.0.7''"
    by (simp add: config_override_def config_default_def eval_text)
  from get_ip_tiers [of config_override os_plain] t1 s1
  have a: "get_ip config_override os_plain = ([], ''10.0.0.7'')" by simp
  have t2: "\<not> truthy (HOST_IP config_eth0) \<and> truthy (IFACE config_eth0)"
    by (simp add: truthy_def config_eth0_def config_default_def)
  have o2: "ip_addr_show os_plain (the (IFACE config_eth0)) =
      Some ''2: eth0    inet 192.168.1.5/24 brd 192.168.1.255 scope global eth0''"
    by (simp add: os_plain_def config_eth0_def config_default_def)
  have f2: "find addr_token (concat (map split_ws (splitlines (strip
        ''2: eth0    inet 192.168.1.5/24 brd 192.168.1.255 scope global eth0'')))) =
      Some ''192.168.1.5/24''"
    by (simp add: eval_text)
  have k2: "takeWhile (\<lambda>c. c \<noteq> CHR ''/'') ''192.168.1.5/24'' = ''192.168.1.5''" by simp
  from get_ip_tiers [of config_eth0 os_plain
      "''2: eth0    inet 192.168.1.5/24 brd 192.168.1.255 scope global eth0''" "''192.168.1.5/24''"]
    t2 o2 f2 k2
  have b: "get_ip config_eth0 os_plain = ([IpAddrShow], ''192.168.1.5'')" by simp
  have t3: "\<not> truthy (HOST_IP config_default) \<and> \<not> truthy (IFACE config_default)"
    by (simp add: truthy_def config_default_def)
  have r3: "ip_route_get os_plain = Some ''1.1.1.1 via 10.0.0.1 dev eth0 src 10.0.0.5 uid 0''"
    by (simp add: os_plain_def)
  have d3: "dropWhile (\<lambda>t. t \<noteq> ''src'')
        (split_ws ''1.1.1.1 via 10.0.0.1 dev eth0 src 10.0.0.5 uid 0'') =
      ''src'' # ''10.0.0.5'' # [''uid'', ''0'']"
    by (simp add: eval_text)
  from get_ip_tiers [where cfg = config_default and e = os_plain
      and ro = "''1.1.1.1 via 10.0.0.1 dev eth0 src 10.0.0.5 uid 0''"
      and t = "''src''" and u = "''10.0.0.5''" and rest = "[''uid'', ''0'']"]
    t3 r3 d3
  have c: "get_ip config_default os_plain = ([IpRouteGet], ''10.0.0.5'')" by simp
  have r4: "ip_route_get os_socket = Some ''1.1.1.1 via 10.0.0.1 dev eth0''"
    "ip_route_get (os_socket\<lparr>sock_name := None\<rparr>) = Some ''1.1.1.1 via 10.0.0.1 dev eth0''"
    by (simp_all add: os_socket_def)
  have d4: "length (dropWhile (\<lambda>t. t \<noteq> ''src'') (split_ws ''1.1.1.1 via 10.0.0.1 dev eth0'')) < 2"
    by (simp add: eval_text)
  have n4: "sock_name os_socket = Some ''10.0.0.9''" by (simp add: os_socket_def)
  from get_ip_tiers [where cfg = config_default and e = os_socket
      and ro = "''1.1.1.1 via 10.0.0.1 dev eth0''"]
    t3 r4(1) d4 n4
  have d: "get_ip config_default os_socket = ([IpRouteGet, SocketConnect], ''10.0.0.9'')"
    by simp
  from get_ip_tiers [where cfg = config_default and e = "os_socket\<lparr>sock_name := None\<rparr>"
      and ro = "''1.1.1.1 via 10.0.0.1 dev eth0''"]
    t3 r4(2) d4
  have e: "get_ip config_default (os_socket\<lparr>sock_name := None\<rparr>)
     = ([IpRouteGet, SocketConnect], ''0.0.0.0'')"
    by simp
  from a b c d e show ?thesis by blast
qed

text \<open>
  The claim as stated fails twice. With an interface configured whose \<open>ip\<close> command
  fails, the result is 0.0.0.0 and the route is never queried, though it would give
  10.0.0.5 (as it does without the interface). And an override in spaces is not returned
  verbatim.
\<close>

theorem get_ip_skips_route_tier_counterexample:
  "\<not> truthy (HOST_IP config_iface) \<and> truthy (IFACE config_iface) \<and>
   ip_addr_show os_plain ''eth9'' = None \<and>
   get_ip config_iface os_plain = ([IpAddrShow], ''0.0.0.0'') \<and>
   get_ip config_default os_plain = ([IpRouteGet], ''10.0.0.5'') \<and>
   HOST_IP config_override = Some '' 10.0.0.7 '' \<and>
   get_ip config_override os_plain = ([], ''10.0.0.7'')"
  by (simp add: get_ip_def route_tier_def truthy_def config_iface_def config_override_def
      config_default_def os_plain_def eval_text)

section \<open>The display handle\<close>

lemma loop_pass_effects:
  "device (loop_pass f m cfg e st) = device st \<and>
   (\<exists>x y. effects (loop_pass f m cfg e st) = effects st @ [x, y] \<and>
      \<not> is_acquired x \<and> \<not> is_acquired y)"
  by (auto simp: loop_pass_def loop_error_def split: sum.splits)

lemma main_loop_effects:
  "device (main_loop f m cfg es st) = device st \<and>
   (\<exists>new. effects (main_loop f m cfg es st) = effects st @ new \<and>
      length new = 2 * length es \<and> list_all (\<lambda>x. \<not> is_acquired x) new)"
proof (induction es arbitrary: st)
  case Nil
  show ?case by simp
next
  case (Cons e es)
  let ?st1 = "loop_pass f m cfg e st"
  from loop_pass_effects [of f m cfg e st] obtain x y where
    d1: "device ?st1 = device st" and
    e1: "effects ?st1 = effects st @ [x, y]" and n1: "\<not> is_acquired x" "\<not> is_acquired y"
    by blast
  from Cons.IH [of ?st1] obtain new where
    d2: "device (main_loop f m cfg es ?st1) = device ?st1" and
    e2: "effects (main_loop f m cfg es ?st1) = effects ?st1 @ new" and
    l2: "length new = 2 * length es" and n2: "list_all (\<lambda>x. \<not> is_acquired x) new"
    by blast
  have "effects (main_loop f m cfg (e # es) st) = effects st @ ([x, y] @ new)"
    using e1 e2 by simp
  moreover have "length ([x, y] @ new) = 2 * length (e # es)" using l2 by simp
  moreover have "list_all (\<lambda>x. \<not> is_acquired x) ([x, y] @ new)" using n1 n2 by simp
  ultimately show ?case using d1 d2 by (metis main_loop.simps(2))
qed

lemma open_display_effects:
  "open_display n attempts = Some (effs, dev) \<Longrightarrow> list_all (\<lambda>x. \<not> is_acquired x) effs"
proof (induction attempts arbitrary: n effs dev)
  case Nil
  then show ?case by simp
next
  case (Cons ok rest)
  show ?case
  proof (cases ok)
    case True
    with Cons.prems show ?thesis by simp
  next
    case False
    with Cons.prems obtain effs' where
      r: "open_display (Suc n) rest = Some (effs', dev)" and
      e: "effs = Print ''I2C/OLED init failed, retrying in 5s:'' # Sleep 5 # effs'"
      by (auto split: option.splits)
    from Cons.IH [OF r] e show ?thesis by simp
  qed
qed

lemma program_acquires_once:
  assumes "program f m cfg attempts es = Some st"
  shows "length (filter is_acquired (effects st)) = 1"
proof -
  from assms obtain effs dev where
    o: "open_display 0 attempts = Some (effs, dev)" and
    st: "st = main_loop f m cfg es \<lparr>device = dev, effects = effs @ [Acquired dev]\<rparr>"
    by (auto simp: program_def split: option.splits)
  from main_loop_effects [of f m cfg es "\<lparr>device = dev, effects = effs @ [Acquired dev]\<rparr>"] st
  obtain new where
    e: "effects st = (effs @ [Acquired dev]) @ new" and
    n: "list_all (\<lambda>x. \<not> is_acquired x) new"
    by auto
  from open_display_effects [OF o] have "filter is_acquired effs = []"
    by (simp add: list_all_iff filter_empty_conv)
  moreover from n have "filter is_acquired new = []"
    by (simp add: list_all_iff filter_empty_conv)
  ultimately show ?thesis by (simp add: e)
qed

text \<open>
  Claim C5, as the code has it. When the display transport faults in a pass, the loop
  prints the error, sleeps 2 s and goes on with the same handle: whatever happens in the
  passes, the handle of the state is the one the loop started with, every pass runs (two
  effects each), none of them is the return of \<open>open_display\<close>, and the whole program
  opens the display exactly once.
\<close>

theorem fault_keeps_handle:
  "(sample f cfg e = Inr s \<and> \<not> display_ok e \<longrightarrow>
      loop_pass f m cfg e st =
        st\<lparr>effects := effects st @ [Print ''Loop error (continuing):'', Sleep 2]\<rparr>) \<and>
   device (main_loop f m cfg es st) = device st \<and>
   (\<exists>new. effects (main_loop f m cfg es st) = effects st @ new \<and>
      length new = 2 * length es \<and> list_all (\<lambda>x. \<not> is_acquired x) new) \<and>
   (program f m cfg attempts es = Some st' \<longrightarrow>
      length (filter is_acquired (effects st')) = 1)"
  using main_loop_effects [of f m cfg es st] program_acquires_once [of f m cfg attempts es st']
  by (simp add: loop_pass_def loop_error_def)

lemma route_tier_display_ok:
  "route_tier (e\<lparr>display_ok := b\<rparr>) asked = route_tier e asked"
  by (auto simp: route_tier_def split: option.splits)

lemma get_ip_display_ok:
  "get_ip cfg (e\<lparr>display_ok := b\<rparr>) = get_ip cfg e"
  by (auto simp: get_ip_def route_tier_display_ok split: option.splits)

lemma sample_display_ok:
  "sample f cfg (e\<lparr>display_ok := b\<rparr>) = sample f cfg e"
  by (auto simp: sample_def get_ip_display_ok Let_def split: sum.splits)

lemma sample_fault:
  "sample float_digits config_default os_fault =
     Inr \<lparr>ip = ''10.0.0.5'', cpu = 80, temp = None, ram = 75, disk = 50\<rparr>"
  by (simp add: os_fault_def sample_display_ok sample_plain)

lemma canvas_n: "canvas_block glyphs7 ''/'' \<lparr>ip = ''10.0.0.5'', cpu = 80, temp = None, ram = 75, disk = 50\<rparr> =
     [(0, ustr ''IP: 10.0.0.5''), (14, ustr ''CPU:80.0%''),
      (28, ustr ''RAM:75.0%''), (42, ustr ''DISK(/):50.0%'')]"
  by (simp add: canvas_block_def fit_def glyphs7_def eval_lines eval_num ustr_def)

lemma pass_fault:
  "loop_pass float_digits glyphs7 config_default os_fault st =
     st\<lparr>effects := effects st @ [Print ''Loop error (continuing):'', Sleep 2]\<rparr>"
proof -
  have "\<not> display_ok os_fault" by (simp add: os_fault_def)
  then show ?thesis by (simp add: loop_pass_def sample_fault loop_error_def)
qed

lemma pass_plain:
  "loop_pass float_digits glyphs7 config_default os_plain st =
     st\<lparr>effects := effects st @
        [Draw (device st) [(0, ustr ''IP: 10.0.0.5''), (14, ustr ''CPU:80.0%''),
                           (28, ustr ''RAM:75.0%''), (42, ustr ''DISK(/):50.0%'')],
         Sleep 2]\<rparr>"
proof -
  have "display_ok os_plain" by (simp add: os_plain_def)
  moreover have "MOUNT config_default = ''/''" "UPDATE_SECS config_default = 2"
    by (simp_all add: config_default_def)
  ultimately show ?thesis
    by (simp add: loop_pass_def sample_plain canvas_n)
qed

theorem fault_keeps_handle_witness:
  "sample float_digits config_default os_fault =
     Inr \<lparr>ip = ''10.0.0.5'', cpu = 80, temp = None, ram = 75, disk = 50\<rparr> \<and>
   \<not> display_ok os_fault \<and>
   loop_pass float_digits glyphs7 config_default os_fault state0 =
     \<lparr>device = 0, effects = [Acquired 0, Print ''Loop error (continuing):'', Sleep 2]\<rparr> \<and>
   device (main_loop float_digits glyphs7 config_default [os_fault, os_plain] state0) = 0"
proof -
  have d: "\<not> display_ok os_fault" by (simp add: os_fault_def)
  from fault_keeps_handle [of float_digits config_default os_fault
      "\<lparr>ip = ''10.0.0.5'', cpu = 80, temp = None, ram = 75, disk = 50\<rparr>" glyphs7 state0
      "[os_fault, os_plain]"] sample_fault d
  have a: "loop_pass float_digits glyphs7 config_default os_fault state0 =
        state0\<lparr>effects := effects state0 @ [Print ''Loop error (continuing):'', Sleep 2]\<rparr>"
    and b: "device (main_loop float_digits glyphs7 config_default [os_fault, os_plain] state0)
        = device state0"
    by blast+
  have "state0\<lparr>effects := effects state0 @ [Print ''Loop error (continuing):'', Sleep 2]\<rparr> =
     \<lparr>device = 0, effects = [Acquired 0, Print ''Loop error (continuing):'', Sleep 2]\<rparr>"
    by (simp add: state0_def)
  moreover have "device state0 = 0" by (simp add: state0_def)
  ultimately show ?thesis using a b d sample_fault by simp
qed

text \<open>
  The claim as stated fails: after a first attempt that fails, handle 1 is opened; the
  first pass faults, and the next pass draws through handle 1 again, with no return to
  \<open>open_display\<close> in between.
\<close>

theorem fault_no_reacquire_counterexample:
  "program float_digits glyphs7 config_default [False, True] [os_fault, os_plain] =
     Some \<lparr>device = 1,
           effects = [Print ''I2C/OLED init failed, retrying in 5s:'', Sleep 5, Acquired 1,
                      Print ''Loop error (continuing):'', Sleep 2,
                      Draw 1 [(0, ustr ''IP: 10.0.0.5''), (14, ustr ''CPU:80.0%''),
                              (28, ustr ''RAM:75.0%''), (42, ustr ''DISK(/):50.0%'')],
                      Sleep 2]\<rparr>"
  by (simp add: program_def pass_fault pass_plain)

end
